theory Spec2Isabelle
  imports Complex_Main "HOL-Library.State_Monad" "HOL-Library.Multiset"
begin

section \<open>Host data read by the Grease Pencil panels\<close>

text \<open>
  The panels read attributes of objects owned by the host application. Each host type
  is a record holding the attributes whose \<^emph>\<open>values\<close> the Python code reads; an
  attribute that is only named in a \<open>layout.prop(owner, "name")\<close> call is a string in
  the recorded call, not a field. Fields carry a prefix where two host types share an
  attribute name. A host attribute that can be \<open>None\<close> is an \<open>option\<close>.
\<close>

record layer =
  stroke_dryness :: real

text \<open>\<open>gpd.layers\<close>: a collection (falsy when empty) with an \<open>active\<close> member.\<close>

record gp_layers =
  layers_items :: "layer list"
  layers_active :: "layer option"

record morph_target =
  mt_name :: string
  order_nr :: int
  morphed_layer_order :: bool

record gp_morph_targets =
  morph_targets_items :: "morph_target list"
  morph_targets_active :: "morph_target option"

text \<open>The legacy Grease Pencil data-block (\<open>context.gpencil\<close>, object type \<open>'GPENCIL'\<close>).\<close>

record gpencil =
  layers :: gp_layers
  morph_targets :: gp_morph_targets
  watercolor :: bool
  onion_mode :: string
  users :: int
  use_ghost_custom_colors :: bool
  in_morph_edit_mode :: bool
  stroke_thickness_space :: string

record shape_key =
  sk_name :: string

text \<open>The Grease Pencil data-block of object type \<open>'GREASEPENCIL'\<close> (\<open>context.grease_pencil\<close>).\<close>

record grease_pencil =
  shape_keys :: "shape_key list"

record vertex_group =
  lock_weight :: bool

record ob_vertex_groups =
  vertex_groups_items :: "vertex_group list"
  vertex_groups_active :: "vertex_group option"

text \<open>
  \<open>object.data\<close> is dynamically typed: reading \<open>morph_targets\<close> or \<open>shape_keys\<close> off a
  data-block of another kind raises \<open>AttributeError\<close>.
\<close>

datatype obdata = DataGpencil gpencil | DataGreasePencil grease_pencil | DataOther

record bl_object =
  ob_type :: string
  ob_data :: obdata
  vertex_groups :: ob_vertex_groups
  show_in_front :: bool

text \<open>\<open>material.grease_pencil\<close>: the material's Grease Pencil settings.\<close>

record gpcolor =
  lock :: bool
  ghost :: bool
  stroke_style :: string
  mode :: string
  fill_style :: string
  gradient_type :: string

record material =
  ma_grease_pencil :: "gpcolor option"

record material_slot =
  slot_material :: "material option"

record palette =
  shader_count :: int

record paint =
  paint_palette :: "palette option"

record tool_settings =
  gpencil_paint :: "paint option"

record scene =
  scene_tool_settings :: tool_settings

text \<open>The members of \<open>context\<close> that the four files read.\<close>

record bl_context =
  ctx_object :: "bl_object option"
  ctx_active_object :: "bl_object option"
  ctx_gpencil :: "gpencil option"
  ctx_grease_pencil :: "grease_pencil option"
  ctx_material :: "material option"
  ctx_space_data :: nat
  ctx_tool_settings :: tool_settings
  ctx_scene :: scene

section \<open>Python values, errors and the layout calls\<close>

datatype error = AttributeError | TypeError

text \<open>A host object handed to a layout call (the \<open>data\<close> argument of \<open>prop\<close>, a template's owner).\<close>

datatype owner =
    OGpencil gpencil
  | OLayers gp_layers
  | OLayer layer
  | OMorphTargets gp_morph_targets
  | OMorphTarget morph_target
  | OGrid gpencil
  | OShapeKey shape_key
  | OObject bl_object
  | OVertexGroups ob_vertex_groups
  | OVertexGroup vertex_group
  | OMaterial material
  | OGPColor gpcolor
  | OPaint paint
  | OToolSettings tool_settings
  | OSpace nat

text \<open>
  Argument values. \<open>ADec m k\<close> is the decimal literal \<open>m / 10^k\<close> (\<open>factor=0.9\<close> is
  \<open>ADec 9 1\<close>); the code passes such literals on and never computes with them.
\<close>

datatype arg = ANone | AStr string | ABool bool | AInt int | ADec int nat | AObj owner

type_synonym kwargs = "(string \<times> arg) list"

text \<open>What a \<open>poll\<close> returns: Python's \<open>and\<close>/\<open>or\<close> return an operand, not a bool.\<close>

datatype pyobj = PyNone | PyBool bool | PyObj owner

fun truthy :: "pyobj \<Rightarrow> bool" where
  "truthy PyNone = False"
| "truthy (PyBool b) = b"
| "truthy (PyObj _) = True"

text \<open>
  A layout is known by its handle; \<open>self.layout\<close> (and the \<open>layout\<close> argument of
  \<open>draw_item\<close>) is handle 0. An attribute assignment \<open>x.attr = v\<close> is recorded with its
  target: a layout, or a host data object.
\<close>

type_synonym lid = nat

datatype target = OnLayout lid | OnData owner

datatype call =
    SetAttr target string arg
  | SubLayout lid string kwargs lid
  | Prop lid owner string kwargs
  | PropDecorator lid owner string
  | Operator lid string kwargs kwargs
  | OperatorMenuEnum lid string string kwargs
  | Label lid kwargs
  | Separator lid kwargs
  | MenuCall lid string kwargs
  | Popover lid kwargs
  | TemplateID lid owner string kwargs
  | TemplateList lid "arg list" kwargs
  | TemplatePalette lid owner string kwargs
  | TemplatePreview lid "owner option"

text \<open>
  \<open>Operator l idname kw props\<close> is \<open>l.operator(idname, **kw)\<close> together with the
  assignments made to the returned operator properties (\<open>.mode = 'ALL'\<close>).
  \<open>SubLayout l kind kw h\<close> is \<open>h = l.row(**kw)\<close> (or column, split, grid_flow).
\<close>

record ui =
  next_handle :: nat
  calls :: "call list"

abbreviation self_layout :: lid where
  "self_layout \<equiv> 0"

definition emit :: "call \<Rightarrow> (ui, unit) state" where
  "emit c = State (\<lambda>s. ((), s\<lparr>calls := calls s @ [c]\<rparr>))"

definition sub_layout :: "string \<Rightarrow> lid \<Rightarrow> kwargs \<Rightarrow> (ui, lid) state" where
  "sub_layout kind l kw =
     State (\<lambda>s. (next_handle s,
       \<lparr>next_handle = Suc (next_handle s),
        calls = calls s @ [SubLayout l kind kw (next_handle s)]\<rparr>))"

definition row :: "lid \<Rightarrow> kwargs \<Rightarrow> (ui, lid) state" where
  "row = sub_layout ''row''"

definition column :: "lid \<Rightarrow> kwargs \<Rightarrow> (ui, lid) state" where
  "column = sub_layout ''column''"

definition split_layout :: "lid \<Rightarrow> kwargs \<Rightarrow> (ui, lid) state" where
  "split_layout = sub_layout ''split''"

definition grid_flow :: "lid \<Rightarrow> kwargs \<Rightarrow> (ui, lid) state" where
  "grid_flow = sub_layout ''grid_flow''"

definition set_attr :: "lid \<Rightarrow> string \<Rightarrow> arg \<Rightarrow> (ui, unit) state" where
  "set_attr l a v = emit (SetAttr (OnLayout l) a v)"

definition ui_prop :: "lid \<Rightarrow> owner \<Rightarrow> string \<Rightarrow> kwargs \<Rightarrow> (ui, unit) state" where
  "ui_prop l data property kw = emit (Prop l data property kw)"

definition prop_decorator :: "lid \<Rightarrow> owner \<Rightarrow> string \<Rightarrow> (ui, unit) state" where
  "prop_decorator l data property = emit (PropDecorator l data property)"

definition operator :: "lid \<Rightarrow> string \<Rightarrow> kwargs \<Rightarrow> kwargs \<Rightarrow> (ui, unit) state" where
  "operator l idname kw props = emit (Operator l idname kw props)"

definition operator_menu_enum :: "lid \<Rightarrow> string \<Rightarrow> string \<Rightarrow> kwargs \<Rightarrow> (ui, unit) state" where
  "operator_menu_enum l idname property kw = emit (OperatorMenuEnum l idname property kw)"

definition label :: "lid \<Rightarrow> kwargs \<Rightarrow> (ui, unit) state" where
  "label l kw = emit (Label l kw)"

definition separator :: "lid \<Rightarrow> kwargs \<Rightarrow> (ui, unit) state" where
  "separator l kw = emit (Separator l kw)"

definition menu :: "lid \<Rightarrow> string \<Rightarrow> kwargs \<Rightarrow> (ui, unit) state" where
  "menu l idname kw = emit (MenuCall l idname kw)"

definition popover :: "lid \<Rightarrow> kwargs \<Rightarrow> (ui, unit) state" where
  "popover l kw = emit (Popover l kw)"

definition template_ID :: "lid \<Rightarrow> owner \<Rightarrow> string \<Rightarrow> kwargs \<Rightarrow> (ui, unit) state" where
  "template_ID l data property kw = emit (TemplateID l data property kw)"

definition template_list :: "lid \<Rightarrow> arg list \<Rightarrow> kwargs \<Rightarrow> (ui, unit) state" where
  "template_list l args kw = emit (TemplateList l args kw)"

definition template_palette :: "lid \<Rightarrow> owner \<Rightarrow> string \<Rightarrow> kwargs \<Rightarrow> (ui, unit) state" where
  "template_palette l data property kw = emit (TemplatePalette l data property kw)"

definition template_preview :: "lid \<Rightarrow> owner option \<Rightarrow> (ui, unit) state" where
  "template_preview l ident = emit (TemplatePreview l ident)"

definition skip :: "(ui, unit) state" where
  "skip = State_Monad.return ()"

text \<open>A draw method runs on a fresh layout; its outcome is the list of calls it made.\<close>

definition run_layout :: "(ui, unit) state \<Rightarrow> call list" where
  "run_layout m = calls (snd (run_state m \<lparr>next_handle = 1, calls = []\<rparr>))"

fun is_widget :: "call \<Rightarrow> bool" where
  "is_widget (SetAttr _ _ _) = False"
| "is_widget (SubLayout _ _ _ _) = False"
| "is_widget _ = True"

fun writes_data :: "call \<Rightarrow> bool" where
  "writes_data (SetAttr (OnData _) _ _) = True"
| "writes_data _ = False"

section \<open>The N-panels: morph targets and shape keys\<close>

definition GPENCIL_PT_MorphTargetsNPanel_poll :: "bl_context \<Rightarrow> error + pyobj" where
  "GPENCIL_PT_MorphTargetsNPanel_poll ctx =
     (case ctx_object ctx of
        None \<Rightarrow> Inr (PyBool False)
      | Some ob \<Rightarrow>
          if ob_type ob \<noteq> ''GPENCIL'' then Inr (PyBool False)
          else (case ob_data ob of
                  DataGpencil gpd \<Rightarrow>
                    Inr (PyBool (length (morph_targets_items (morph_targets gpd)) > 0))
                | _ \<Rightarrow> Inl AttributeError))"

text \<open>The body of the \<open>for mt in sorted(...)\<close> loop, once per morph target.\<close>

fun morph_target_rows :: "lid \<Rightarrow> morph_target list \<Rightarrow> (ui, unit) state" where
  "morph_target_rows col [] = skip"
| "morph_target_rows col (mt # mts) = do {
     sub \<leftarrow> split_layout col [(''factor'', ADec 9 1), (''align'', ABool True)];
     ui_prop sub (OMorphTarget mt) ''value'' [(''text'', AStr (mt_name mt))];
     r \<leftarrow> row sub [(''align'', ABool True)];
     set_attr r ''use_property_decorate'' (ABool False);
     set_attr r ''emboss'' (AStr ''NONE'');
     ui_prop r (OMorphTarget mt) ''mute'' [];
     morph_target_rows col mts
   }"

text \<open>
  Python's \<open>sorted(mt_list, key=...)\<close> is a stable sort; so is \<^const>\<open>sort_key\<close>.
\<close>

definition GPENCIL_PT_MorphTargetsNPanel_draw :: "bl_context \<Rightarrow> error + call list" where
  "GPENCIL_PT_MorphTargetsNPanel_draw ctx =
     (case ctx_object ctx of
        None \<Rightarrow> Inl AttributeError
      | Some ob \<Rightarrow>
          (case ob_data ob of
             DataGpencil gpd \<Rightarrow> Inr (run_layout (do {
               set_attr self_layout ''use_property_decorate'' (ABool True);
               set_attr self_layout ''use_property_split'' (ABool True);
               col \<leftarrow> column self_layout [(''align'', ABool True)];
               morph_target_rows col
                 (sort_key order_nr (morph_targets_items (morph_targets gpd)));
               separator self_layout [(''factor'', ADec 2 1)]
             }))
           | _ \<Rightarrow> Inl AttributeError))"

definition GREASE_PENCIL_PT_ShapeKeysNPanel_poll :: "bl_context \<Rightarrow> error + pyobj" where
  "GREASE_PENCIL_PT_ShapeKeysNPanel_poll ctx =
     (case ctx_object ctx of
        None \<Rightarrow> Inr (PyBool False)
      | Some ob \<Rightarrow>
          if ob_type ob \<noteq> ''GREASEPENCIL'' then Inr (PyBool False)
          else (case ob_data ob of
                  DataGreasePencil grease_pencil \<Rightarrow>
                    Inr (PyBool (length (shape_keys grease_pencil) > 0))
                | _ \<Rightarrow> Inl AttributeError))"

fun shape_key_rows :: "lid \<Rightarrow> shape_key list \<Rightarrow> (ui, unit) state" where
  "shape_key_rows col [] = skip"
| "shape_key_rows col (shape_key # rest) = do {
     sub \<leftarrow> split_layout col [(''factor'', ADec 9 1), (''align'', ABool True)];
     ui_prop sub (OShapeKey shape_key) ''value''
       [(''text'', AStr (sk_name shape_key)), (''slider'', ABool True)];
     r \<leftarrow> row sub [(''align'', ABool True)];
     set_attr r ''use_property_decorate'' (ABool False);
     set_attr r ''emboss'' (AStr ''NONE'');
     ui_prop r (OShapeKey shape_key) ''mute'' [];
     shape_key_rows col rest
   }"

definition GREASE_PENCIL_PT_ShapeKeysNPanel_draw :: "bl_context \<Rightarrow> error + call list" where
  "GREASE_PENCIL_PT_ShapeKeysNPanel_draw ctx =
     (case ctx_grease_pencil ctx of
        None \<Rightarrow> Inl AttributeError
      | Some grease_pencil \<Rightarrow> Inr (run_layout (do {
          set_attr self_layout ''use_property_decorate'' (ABool True);
          set_attr self_layout ''use_property_split'' (ABool True);
          col \<leftarrow> column self_layout [(''align'', ABool True)];
          shape_key_rows col (shape_keys grease_pencil);
          separator self_layout [(''factor'', ADec 2 1)]
        })))"

section \<open>properties_data_gpencil.py: the shared poll methods\<close>

definition DataButtonsPanel_poll :: "bl_context \<Rightarrow> error + pyobj" where
  "DataButtonsPanel_poll ctx =
     Inr (case ctx_gpencil ctx of None \<Rightarrow> PyNone | Some gpencil \<Rightarrow> PyObj (OGpencil gpencil))"

text \<open>\<open>ob and ob.type == 'GPENCIL'\<close>: \<open>None\<close> when there is no object, else the comparison.\<close>

definition ObjectButtonsPanel_poll :: "bl_context \<Rightarrow> error + pyobj" where
  "ObjectButtonsPanel_poll ctx =
     Inr (case ctx_object ctx of
            None \<Rightarrow> PyNone
          | Some ob \<Rightarrow> PyBool (ob_type ob = ''GPENCIL''))"

text \<open>\<open>gpencil and gpencil.layers.active\<close>: the right operand is read only when the left is truthy.\<close>

definition LayerDataButtonsPanel_poll :: "bl_context \<Rightarrow> error + pyobj" where
  "LayerDataButtonsPanel_poll ctx =
     Inr (case ctx_gpencil ctx of
            None \<Rightarrow> PyNone
          | Some gpencil \<Rightarrow>
              (case layers_active (layers gpencil) of
                 None \<Rightarrow> PyNone
               | Some gpl \<Rightarrow> PyObj (OLayer gpl)))"

section \<open>properties_data_gpencil.py: the draw methods\<close>

definition DATA_PT_context_gpencil_draw :: "bl_context \<Rightarrow> error + call list" where
  "DATA_PT_context_gpencil_draw ctx =
     Inr (run_layout
       (case ctx_object ctx of
          Some ob \<Rightarrow> template_ID self_layout (OObject ob) ''data'' []
        | None \<Rightarrow> template_ID self_layout (OSpace (ctx_space_data ctx)) ''pin_id'' []))"

text \<open>
  \<open>ob.data\<close> fails on a missing object, \<open>gpd.layers\<close> on a data-block that is not a legacy
  Grease Pencil one, and \<open>layout.prop(gpl, ...)\<close> on a missing active layer.
\<close>

definition GPENCIL_MT_layer_context_menu_draw :: "bl_context \<Rightarrow> error + call list" where
  "GPENCIL_MT_layer_context_menu_draw ctx =
     (case ctx_object ctx of
        None \<Rightarrow> Inl AttributeError
      | Some ob \<Rightarrow>
          (case ob_data ob of
             DataGpencil gpd \<Rightarrow>
               (case layers_active (layers gpd) of
                  None \<Rightarrow> Inl TypeError
                | Some gpl \<Rightarrow> Inr (run_layout (do {
                    operator self_layout ''gpencil.layer_duplicate''
                      [(''text'', AStr ''Duplicate''), (''icon'', AStr ''DUPLICATE'')]
                      [(''mode'', AStr ''ALL'')];
                    operator self_layout ''gpencil.layer_duplicate''
                      [(''text'', AStr ''Duplicate Empty Keyframes'')]
                      [(''mode'', AStr ''EMPTY'')];
                    separator self_layout [];
                    operator self_layout ''gpencil.reveal''
                      [(''icon'', AStr ''RESTRICT_VIEW_OFF''), (''text'', AStr ''Show All'')] [];
                    operator self_layout ''gpencil.hide''
                      [(''icon'', AStr ''RESTRICT_VIEW_ON''), (''text'', AStr ''Hide Others'')]
                      [(''unselected'', ABool True)];
                    separator self_layout [];
                    operator self_layout ''gpencil.lock_all''
                      [(''icon'', AStr ''LOCKED''), (''text'', AStr ''Lock All'')] [];
                    operator self_layout ''gpencil.unlock_all''
                      [(''icon'', AStr ''UNLOCKED''), (''text'', AStr ''Unlock All'')] [];
                    ui_prop self_layout (OGpencil gpd) ''use_autolock_layers''
                      [(''text'', AStr ''Autolock Inactive Layers'')];
                    ui_prop self_layout (OLayer gpl) ''lock_material'' [];
                    separator self_layout [];
                    operator self_layout ''gpencil.layer_merge''
                      [(''icon'', AStr ''SORT_ASC''), (''text'', AStr ''Merge Down'')]
                      [(''mode'', AStr ''ACTIVE'')];
                    operator self_layout ''gpencil.layer_merge''
                      [(''text'', AStr ''Merge All'')] [(''mode'', AStr ''ALL'')];
                    separator self_layout [];
                    operator self_layout ''gpencil.layer_duplicate_object''
                      [(''text'', AStr ''Copy Layer to Selected'')]
                      [(''only_active'', ABool True)];
                    operator self_layout ''gpencil.layer_duplicate_object''
                      [(''text'', AStr ''Copy All Layers to Selected'')]
                      [(''only_active'', ABool False)]
                  })))
           | _ \<Rightarrow> Inl AttributeError))"

text \<open>The part of \<open>draw_layers\<close> under \<open>if gpl:\<close> that follows the layer list.\<close>

definition draw_layers_buttons :: "gpencil \<Rightarrow> lid \<Rightarrow> lid \<Rightarrow> (ui, unit) state" where
  "draw_layers_buttons gpd col sub = do {
     menu sub ''GPENCIL_MT_layer_context_menu''
       [(''icon'', AStr ''DOWNARROW_HLT''), (''text'', AStr '''')];
     if length (layers_items (layers gpd)) > 1 then do {
       separator col [];
       sub \<leftarrow> column col [(''align'', ABool True)];
       operator sub ''gpencil.layer_move''
         [(''icon'', AStr ''TRIA_UP''), (''text'', AStr '''')] [(''type'', AStr ''UP'')];
       operator sub ''gpencil.layer_move''
         [(''icon'', AStr ''TRIA_DOWN''), (''text'', AStr '''')] [(''type'', AStr ''DOWN'')];
       separator col [];
       sub \<leftarrow> column col [(''align'', ABool True)];
       operator sub ''gpencil.layer_isolate''
         [(''icon'', AStr ''RESTRICT_VIEW_ON''), (''text'', AStr '''')]
         [(''affect_visibility'', ABool True)];
       operator sub ''gpencil.layer_isolate''
         [(''icon'', AStr ''LOCKED''), (''text'', AStr '''')]
         [(''affect_visibility'', ABool False)]
     } else skip
   }"

text \<open>The layer properties drawn when the data-block is not in watercolor mode.\<close>

definition draw_layers_plain :: "layer \<Rightarrow> (ui, unit) state" where
  "draw_layers_plain gpl = do {
     col \<leftarrow> row self_layout [(''align'', ABool True)];
     ui_prop col (OLayer gpl) ''blend_mode'' [(''text'', AStr ''Blend'')];
     col \<leftarrow> row self_layout [(''align'', ABool True)];
     ui_prop col (OLayer gpl) ''opacity'' [(''text'', AStr ''Opacity''), (''slider'', ABool True)];
     col \<leftarrow> row self_layout [(''align'', ABool True)];
     ui_prop col (OLayer gpl) ''use_lights'' []
   }"

text \<open>The layer properties drawn in watercolor mode.\<close>

definition draw_layers_watercolor :: "layer \<Rightarrow> (ui, unit) state" where
  "draw_layers_watercolor gpl = do {
     set_attr self_layout ''use_property_split'' (ABool False);
     r \<leftarrow> row self_layout [];
     col \<leftarrow> column r [];
     set_attr col ''scale_x'' (ADec 78 2);
     label col [(''text'', AStr '''')];
     col \<leftarrow> column r [];
     ui_prop col (OLayer gpl) ''clear_underlying'' [];
     ui_prop col (OLayer gpl) ''mix_with_underlying'' [];
     ui_prop col (OLayer gpl) ''limit_to_underlying'' [];
     col \<leftarrow> column r [];
     ui_prop col (OLayer gpl) ''gouache_style'' [];
     col \<leftarrow> column col [];
     set_attr col ''enabled'' (ABool (stroke_dryness gpl = 0));
     ui_prop col (OLayer gpl) ''scale_pigment_flow'' [];
     ui_prop col (OLayer gpl) ''is_wetted'' [];
     set_attr self_layout ''use_property_split'' (ABool True);
     separator self_layout [];
     col \<leftarrow> column self_layout [];
     ui_prop col (OLayer gpl) ''opacity'' [(''text'', AStr ''Opacity''), (''slider'', ABool True)];
     col \<leftarrow> column self_layout [(''align'', ABool True)];
     ui_prop col (OLayer gpl) ''watercolor_alpha_variation'' [(''slider'', ABool True)];
     ui_prop col (OLayer gpl) ''watercolor_color_variation'' [(''slider'', ABool True)];
     sub \<leftarrow> grid_flow self_layout [(''columns'', AInt 1), (''align'', ABool True)];
     col \<leftarrow> column sub [];
     set_attr col ''enabled'' (ABool (stroke_dryness gpl = 0));
     ui_prop col (OLayer gpl) ''stroke_wetness'' [(''slider'', ABool True)];
     col \<leftarrow> column sub [];
     set_attr col ''enabled'' (ABool True);
     ui_prop col (OLayer gpl) ''stroke_dryness'' [(''slider'', ABool True)]
   }"

text \<open>
  \<open>DATA_PT_gpencil_layers.draw_layers\<close>. The two consecutive \<open>if not gpd.watercolor\<close>
  blocks are the one definition \<open>draw_layers_plain\<close>.
\<close>

definition draw_layers :: "gpencil \<Rightarrow> (ui, unit) state" where
  "draw_layers gpd = do {
     r \<leftarrow> row self_layout [];
     col \<leftarrow> column r [];
     template_list col
       [AStr ''GPENCIL_UL_layer'', AStr '''', AObj (OGpencil gpd), AStr ''layers'',
        AObj (OLayers (layers gpd)), AStr ''active_index'']
       [(''rows'', AInt 7), (''sort_reverse'', ABool True), (''sort_lock'', ABool True)];
     col \<leftarrow> column r [];
     sub \<leftarrow> column col [(''align'', ABool True)];
     operator sub ''gpencil.layer_add'' [(''icon'', AStr ''ADD''), (''text'', AStr '''')] [];
     operator sub ''gpencil.layer_remove'' [(''icon'', AStr ''REMOVE''), (''text'', AStr '''')] [];
     separator sub [];
     (case layers_active (layers gpd) of
        None \<Rightarrow> skip
      | Some gpl \<Rightarrow> draw_layers_buttons gpd col sub);
     r \<leftarrow> row self_layout [];
     col \<leftarrow> column self_layout [(''align'', ABool True)];
     (case layers_active (layers gpd) of
        None \<Rightarrow> skip
      | Some gpl \<Rightarrow> do {
          set_attr self_layout ''use_property_split'' (ABool True);
          set_attr self_layout ''use_property_decorate'' (ABool True);
          col \<leftarrow> column self_layout [(''align'', ABool True)];
          (if \<not> watercolor gpd then draw_layers_plain gpl else skip);
          (if watercolor gpd then draw_layers_watercolor gpl else skip)
        })
   }"

definition DATA_PT_gpencil_layers_draw :: "bl_context \<Rightarrow> error + call list" where
  "DATA_PT_gpencil_layers_draw ctx =
     Inr (run_layout (do {
       set_attr self_layout ''use_property_decorate'' (ABool False);
       (case ctx_gpencil ctx of
          None \<Rightarrow> operator self_layout ''gpencil.layer_add'' [(''text'', AStr ''New Layer'')] []
        | Some gpd \<Rightarrow>
            if layers_items (layers gpd) = []
            then operator self_layout ''gpencil.layer_add'' [(''text'', AStr ''New Layer'')] []
            else draw_layers gpd)
     }))"

definition DATA_PT_gpencil_layer_default_render_draw :: "bl_context \<Rightarrow> error + call list" where
  "DATA_PT_gpencil_layer_default_render_draw ctx =
     (case ctx_gpencil ctx of
        None \<Rightarrow> Inl AttributeError
      | Some gpd \<Rightarrow>
          (case layers_active (layers gpd) of
             None \<Rightarrow> Inl TypeError
           | Some gpl \<Rightarrow> Inr (run_layout (do {
               set_attr self_layout ''use_property_split'' (ABool True);
               set_attr self_layout ''use_property_decorate'' (ABool True);
               col \<leftarrow> column self_layout [];
               ui_prop col (OLayer gpl) ''blend_mode'' [];
               ui_prop col (OLayer gpl) ''use_lights'' []
             }))))"

definition DATA_PT_gpencil_onion_skinning_draw :: "bl_context \<Rightarrow> error + call list" where
  "DATA_PT_gpencil_onion_skinning_draw ctx =
     (case ctx_gpencil ctx of
        None \<Rightarrow> Inl TypeError
      | Some gpd \<Rightarrow> Inr (run_layout (do {
          set_attr self_layout ''use_property_split'' (ABool True);
          col \<leftarrow> column self_layout [];
          ui_prop col (OGpencil gpd) ''onion_mode'' [];
          ui_prop col (OGpencil gpd) ''onion_factor''
            [(''text'', AStr ''Opacity''), (''slider'', ABool True)];
          ui_prop col (OGpencil gpd) ''onion_keyframe_type'' [];
          if onion_mode gpd = ''ABSOLUTE'' then do {
            col \<leftarrow> column self_layout [(''align'', ABool True)];
            ui_prop col (OGpencil gpd) ''ghost_before_range'' [(''text'', AStr ''Frames Before'')];
            ui_prop col (OGpencil gpd) ''ghost_after_range'' [(''text'', AStr ''Frames After'')]
          } else if onion_mode gpd = ''RELATIVE'' then do {
            col \<leftarrow> column self_layout [(''align'', ABool True)];
            ui_prop col (OGpencil gpd) ''ghost_before_range'' [(''text'', AStr ''Keyframes Before'')];
            ui_prop col (OGpencil gpd) ''ghost_after_range'' [(''text'', AStr ''Keyframes After'')]
          } else skip
        })))"

definition DATA_PT_gpencil_onion_skinning_custom_colors_draw_header ::
    "bl_context \<Rightarrow> error + call list" where
  "DATA_PT_gpencil_onion_skinning_custom_colors_draw_header ctx =
     (case ctx_gpencil ctx of
        None \<Rightarrow> Inl TypeError
      | Some gpd \<Rightarrow> Inr (run_layout
          (ui_prop self_layout (OGpencil gpd) ''use_ghost_custom_colors'' [(''text'', AStr '''')])))"

definition DATA_PT_gpencil_onion_skinning_custom_colors_draw ::
    "bl_context \<Rightarrow> error + call list" where
  "DATA_PT_gpencil_onion_skinning_custom_colors_draw ctx =
     (case ctx_gpencil ctx of
        None \<Rightarrow> Inl AttributeError
      | Some gpd \<Rightarrow> Inr (run_layout (do {
          set_attr self_layout ''use_property_split'' (ABool True);
          set_attr self_layout ''enabled''
            (ABool (users gpd \<le> 1 \<and> use_ghost_custom_colors gpd));
          ui_prop self_layout (OGpencil gpd) ''before_color'' [(''text'', AStr ''Before'')];
          ui_prop self_layout (OGpencil gpd) ''after_color'' [(''text'', AStr ''After'')]
        })))"

definition DATA_PT_gpencil_onion_skinning_display_draw :: "bl_context \<Rightarrow> error + call list" where
  "DATA_PT_gpencil_onion_skinning_display_draw ctx =
     (case ctx_gpencil ctx of
        None \<Rightarrow> Inl AttributeError
      | Some gpd \<Rightarrow> Inr (run_layout (do {
          set_attr self_layout ''use_property_split'' (ABool True);
          set_attr self_layout ''enabled'' (ABool (users gpd \<le> 1));
          ui_prop self_layout (OGpencil gpd) ''use_ghosts_always''
            [(''text'', AStr ''View in Render'')];
          col \<leftarrow> column self_layout [(''align'', ABool True)];
          ui_prop col (OGpencil gpd) ''use_onion_fade'' [(''text'', AStr ''Fade'')];
          sub \<leftarrow> column self_layout [];
          set_attr sub ''active''
            (ABool (onion_mode gpd = ''RELATIVE'' \<or> onion_mode gpd = ''SELECTED''));
          ui_prop sub (OGpencil gpd) ''use_onion_loop'' [(''text'', AStr ''Show Start Frame'')]
        })))"

definition GPENCIL_MT_gpencil_vertex_group_draw :: "bl_context \<Rightarrow> error + call list" where
  "GPENCIL_MT_gpencil_vertex_group_draw ctx =
     (case ctx_active_object ctx of
        None \<Rightarrow> Inl AttributeError
      | Some ob \<Rightarrow> Inr (run_layout (do {
          set_attr self_layout ''operator_context'' (AStr ''EXEC_AREA'');
          operator self_layout ''object.vertex_group_add'' [] [];
          (case vertex_groups_active (vertex_groups ob) of
             None \<Rightarrow> skip
           | Some vgroup \<Rightarrow> do {
               separator self_layout [];
               operator self_layout ''gpencil.vertex_group_assign''
                 [(''text'', AStr ''Assign to Active Group'')] [];
               operator self_layout ''gpencil.vertex_group_remove_from''
                 [(''text'', AStr ''Remove from Active Group'')] [];
               separator self_layout [];
               operator_menu_enum self_layout ''object.vertex_group_set_active'' ''group''
                 [(''text'', AStr ''Set Active Group'')];
               operator self_layout ''object.vertex_group_remove''
                 [(''text'', AStr ''Remove Active Group'')] [(''all'', ABool False)];
               operator self_layout ''object.vertex_group_remove''
                 [(''text'', AStr ''Remove All Groups'')] [(''all'', ABool True)];
               separator self_layout [];
               operator self_layout ''gpencil.vertex_group_select''
                 [(''text'', AStr ''Select Points'')] [];
               operator self_layout ''gpencil.vertex_group_deselect''
                 [(''text'', AStr ''Deselect Points'')] []
             })
        })))"

text \<open>\<open>draw_item\<close> of a UI list: \<open>self.layout_type\<close>, the item and the icon are its inputs.\<close>

definition GPENCIL_UL_vgroups_draw_item :: "string \<Rightarrow> vertex_group \<Rightarrow> int \<Rightarrow> call list" where
  "GPENCIL_UL_vgroups_draw_item layout_type vgroup icon =
     run_layout (
       if layout_type = ''DEFAULT'' \<or> layout_type = ''COMPACT'' then do {
         ui_prop self_layout (OVertexGroup vgroup) ''name''
           [(''text'', AStr ''''), (''emboss'', ABool False), (''icon_value'', AInt icon)];
         ui_prop self_layout (OVertexGroup vgroup) ''lock_weight''
           [(''text'', AStr ''''),
            (''icon'', AStr (if lock_weight vgroup then ''LOCKED'' else ''UNLOCKED'')),
            (''emboss'', ABool False)]
       } else if layout_type = ''GRID'' then do {
         set_attr self_layout ''alignment'' (AStr ''CENTER'');
         label self_layout [(''text'', AStr ''''), (''icon_value'', AInt icon)]
       } else skip)"

definition DATA_PT_gpencil_vertex_groups_draw :: "bl_context \<Rightarrow> error + call list" where
  "DATA_PT_gpencil_vertex_groups_draw ctx =
     (case ctx_object ctx of
        None \<Rightarrow> Inl AttributeError
      | Some ob \<Rightarrow> Inr (run_layout (do {
          r \<leftarrow> row self_layout [];
          template_list r
            [AStr ''GPENCIL_UL_vgroups'', AStr '''', AObj (OObject ob), AStr ''vertex_groups'',
             AObj (OVertexGroups (vertex_groups ob)), AStr ''active_index'']
            [(''rows'', AInt (case vertex_groups_active (vertex_groups ob) of
                                None \<Rightarrow> 2 | Some vgroup \<Rightarrow> 4))];
          col \<leftarrow> column r [(''align'', ABool True)];
          operator col ''object.vertex_group_add''
            [(''icon'', AStr ''ADD''), (''text'', AStr '''')] [];
          operator col ''object.vertex_group_remove''
            [(''icon'', AStr ''REMOVE''), (''text'', AStr '''')] [(''all'', ABool False)];
          (case vertex_groups_active (vertex_groups ob) of
             None \<Rightarrow> skip
           | Some vgroup \<Rightarrow> do {
               separator col [];
               operator col ''object.vertex_group_move''
                 [(''icon'', AStr ''TRIA_UP''), (''text'', AStr '''')]
                 [(''direction'', AStr ''UP'')];
               operator col ''object.vertex_group_move''
                 [(''icon'', AStr ''TRIA_DOWN''), (''text'', AStr '''')]
                 [(''direction'', AStr ''DOWN'')]
             });
          if vertex_groups_items (vertex_groups ob) \<noteq> [] then do {
            r \<leftarrow> row self_layout [];
            sub \<leftarrow> row r [(''align'', ABool True)];
            operator sub ''gpencil.vertex_group_assign'' [(''text'', AStr ''Assign'')] [];
            operator sub ''gpencil.vertex_group_remove_from'' [(''text'', AStr ''Remove'')] [];
            sub \<leftarrow> row r [(''align'', ABool True)];
            operator sub ''gpencil.vertex_group_select'' [(''text'', AStr ''Select'')] [];
            operator sub ''gpencil.vertex_group_deselect'' [(''text'', AStr ''Deselect'')] [];
            ui_prop self_layout (OToolSettings (ctx_tool_settings ctx)) ''vertex_group_weight''
              [(''text'', AStr ''Weight'')]
          } else skip
        })))"

definition DATA_MT_morph_targets_context_menu_draw :: "bl_context \<Rightarrow> error + call list" where
  "DATA_MT_morph_targets_context_menu_draw ctx =
     Inr (run_layout (do {
       operator self_layout ''gpencil.morph_target_duplicate''
         [(''icon'', AStr ''DUPLICATE''), (''text'', AStr ''Duplicate'')] [];
       separator self_layout [];
       operator self_layout ''gpencil.morph_target_remove_all''
         [(''icon'', AStr ''X''), (''text'', AStr ''Delete All'')] [];
       operator self_layout ''gpencil.morph_target_apply_all''
         [(''icon'', AStr ''NODE_COMPOSITING''), (''text'', AStr ''Apply All'')] []
     }))"

text \<open>
  The second \<open>if gpmt:\<close> block of \<open>DATA_PT_gpencil_morph_targets.draw\<close>. \<open>sub.active\<close> is
  read back right after \<open>sub.active = gpd.in_morph_edit_mode\<close>: it is that value.
\<close>

definition draw_morph_target_settings :: "gpencil \<Rightarrow> morph_target \<Rightarrow> (ui, unit) state" where
  "draw_morph_target_settings gpd gpmt = do {
     r \<leftarrow> row self_layout [];
     sub \<leftarrow> column r [];
     set_attr sub ''active'' (ABool (\<not> in_morph_edit_mode gpd));
     operator sub ''gpencil.morph_target_edit'' [(''text'', AStr ''Edit'')] [];
     sub \<leftarrow> column r [];
     set_attr sub ''active'' (ABool (in_morph_edit_mode gpd));
     operator sub ''gpencil.morph_target_edit_finish''
       [(''text'', AStr ''Finish Edit''), (''depress'', ABool (in_morph_edit_mode gpd))] [];
     (if in_morph_edit_mode gpd then do {
        r \<leftarrow> row self_layout [];
        label r [(''text'', AStr ''Note: do not add or remove points while editing.''),
                 (''icon'', AStr ''INFO'')]
      } else skip);
     set_attr self_layout ''use_property_split'' (ABool True);
     separator self_layout [];
     col \<leftarrow> column self_layout [];
     ui_prop col (OMorphTarget gpmt) ''value'' [(''slider'', ABool True)];
     col \<leftarrow> column self_layout [(''align'', ABool True)];
     ui_prop col (OMorphTarget gpmt) ''slider_min'' [(''text'', AStr ''Range Min'')];
     ui_prop col (OMorphTarget gpmt) ''slider_max'' [(''text'', AStr ''Max'')];
     if morphed_layer_order gpmt then do {
       separator self_layout [];
       col \<leftarrow> column self_layout [(''align'', ABool True)];
       ui_prop col (OMorphTarget gpmt) ''layer_order_compare'' [];
       ui_prop col (OMorphTarget gpmt) ''layer_order_value''
         [(''text'', AStr '' ''), (''slider'', ABool True)]
     } else skip
   }"

definition DATA_PT_gpencil_morph_targets_draw :: "bl_context \<Rightarrow> error + call list" where
  "DATA_PT_gpencil_morph_targets_draw ctx =
     (case ctx_gpencil ctx of
        None \<Rightarrow> Inl AttributeError
      | Some gpd \<Rightarrow> Inr (run_layout (do {
          r \<leftarrow> row self_layout [];
          col \<leftarrow> column r [];
          template_list col
            [AStr ''GPENCIL_UL_morph_target'', AStr '''', AObj (OGpencil gpd),
             AStr ''morph_targets'', AObj (OMorphTargets (morph_targets gpd)),
             AStr ''active_index'']
            [(''rows'', AInt 6), (''sort_reverse'', ABool False)];
          col \<leftarrow> column r [];
          sub \<leftarrow> column col [(''align'', ABool True)];
          operator sub ''gpencil.morph_target_add''
            [(''icon'', AStr ''ADD''), (''text'', AStr '''')] [];
          operator sub ''gpencil.morph_target_remove''
            [(''icon'', AStr ''REMOVE''), (''text'', AStr '''')] [];
          (case morph_targets_active (morph_targets gpd) of
             None \<Rightarrow> skip
           | Some gpmt \<Rightarrow> do {
               separator col [];
               operator col ''gpencil.morph_target_move''
                 [(''icon'', AStr ''TRIA_UP''), (''text'', AStr '''')]
                 [(''direction'', AStr ''UP'')];
               operator col ''gpencil.morph_target_move''
                 [(''icon'', AStr ''TRIA_DOWN''), (''text'', AStr '''')]
                 [(''direction'', AStr ''DOWN'')]
             });
          separator sub [];
          menu sub ''DATA_MT_morph_targets_context_menu''
            [(''icon'', AStr ''DOWNARROW_HLT''), (''text'', AStr '''')];
          (case morph_targets_active (morph_targets gpd) of
             None \<Rightarrow> skip
           | Some gpmt \<Rightarrow> draw_morph_target_settings gpd gpmt)
        })))"

definition DATA_PT_gpencil_strokes_draw :: "bl_context \<Rightarrow> error + call list" where
  "DATA_PT_gpencil_strokes_draw ctx =
     (case ctx_gpencil ctx of
        None \<Rightarrow> Inl TypeError
      | Some gpd \<Rightarrow> Inr (run_layout (do {
          set_attr self_layout ''use_property_split'' (ABool True);
          set_attr self_layout ''use_property_decorate'' (ABool False);
          col \<leftarrow> column self_layout [(''align'', ABool True)];
          ui_prop col (OGpencil gpd) ''stroke_depth_order'' [];
          (case ctx_object ctx of
             None \<Rightarrow> skip
           | Some ob \<Rightarrow> set_attr col ''enabled'' (ABool (\<not> show_in_front ob)));
          col \<leftarrow> column self_layout [(''align'', ABool True)];
          ui_prop col (OGpencil gpd) ''stroke_thickness_space'' [];
          sub \<leftarrow> column col [];
          set_attr sub ''active'' (ABool (stroke_thickness_space gpd = ''WORLDSPACE''));
          ui_prop sub (OGpencil gpd) ''pixel_factor'' [(''text'', AStr ''Thickness Scale'')];
          ui_prop col (OGpencil gpd) ''edit_curve_resolution'' []
        })))"

definition DATA_PT_gpencil_display_draw :: "bl_context \<Rightarrow> error + call list" where
  "DATA_PT_gpencil_display_draw ctx =
     (case ctx_gpencil ctx of
        None \<Rightarrow> Inl TypeError
      | Some gpd \<Rightarrow> Inr (run_layout (do {
          set_attr self_layout ''use_property_split'' (ABool True);
          set_attr self_layout ''use_property_decorate'' (ABool False);
          ui_prop self_layout (OGpencil gpd) ''edit_line_color''
            [(''text'', AStr ''Edit Line Color'')]
        })))"

definition DATA_PT_gpencil_canvas_draw :: "bl_context \<Rightarrow> error + call list" where
  "DATA_PT_gpencil_canvas_draw ctx =
     (case ctx_gpencil ctx of
        None \<Rightarrow> Inl AttributeError
      | Some gpd \<Rightarrow> Inr (run_layout (do {
          set_attr self_layout ''use_property_split'' (ABool True);
          set_attr self_layout ''use_property_decorate'' (ABool False);
          r \<leftarrow> row self_layout [(''align'', ABool True)];
          col \<leftarrow> column r [];
          ui_prop col (OGrid gpd) ''color'' [(''text'', AStr ''Color'')];
          ui_prop col (OGrid gpd) ''scale'' [(''text'', AStr ''Scale'')];
          ui_prop col (OGrid gpd) ''offset'' [];
          r \<leftarrow> row self_layout [(''align'', ABool True)];
          col \<leftarrow> column r [];
          ui_prop col (OGrid gpd) ''lines'' [(''text'', AStr ''Subdivisions'')]
        })))"

section \<open>properties_material_gpencil.py\<close>

definition GPENCIL_MT_material_context_menu_draw :: "bl_context \<Rightarrow> error + call list" where
  "GPENCIL_MT_material_context_menu_draw ctx =
     Inr (run_layout (do {
       operator self_layout ''grease_pencil.material_reveal''
         [(''icon'', AStr ''RESTRICT_VIEW_OFF''), (''text'', AStr ''Show All'')] [];
       operator self_layout ''grease_pencil.material_hide''
         [(''icon'', AStr ''RESTRICT_VIEW_ON''), (''text'', AStr ''Hide Others'')]
         [(''invert'', ABool True)];
       separator self_layout [];
       operator self_layout ''grease_pencil.material_lock_all''
         [(''icon'', AStr ''LOCKED''), (''text'', AStr ''Lock All'')] [];
       operator self_layout ''grease_pencil.material_unlock_all''
         [(''icon'', AStr ''UNLOCKED''), (''text'', AStr ''Unlock All'')] [];
       operator self_layout ''grease_pencil.material_lock_unselected''
         [(''text'', AStr ''Lock Unselected'')] [];
       operator self_layout ''grease_pencil.material_lock_unused''
         [(''text'', AStr ''Lock Unused'')] [];
       separator self_layout [];
       operator self_layout ''grease_pencil.material_copy_to_object''
         [(''text'', AStr ''Copy Material to Selected'')] [(''only_active'', ABool True)];
       operator self_layout ''grease_pencil.material_copy_to_object''
         [(''text'', AStr ''Copy All Materials to Selected'')] [(''only_active'', ABool False)];
       operator self_layout ''object.material_slot_remove_unused'' [] []
     }))"

text \<open>
  \<open>GPENCIL_UL_matslots.draw_item\<close>. The two early \<open>return\<close>s leave the icon label as the
  only widget.
\<close>

definition GPENCIL_UL_matslots_draw_item :: "string \<Rightarrow> material_slot \<Rightarrow> int \<Rightarrow> call list" where
  "GPENCIL_UL_matslots_draw_item layout_type slot icon =
     run_layout (
       if layout_type = ''DEFAULT'' \<or> layout_type = ''COMPACT'' then do {
         r \<leftarrow> row self_layout [(''align'', ABool True)];
         label r [(''text'', AStr ''''), (''icon_value'', AInt icon)];
         (case slot_material slot of
            None \<Rightarrow> skip
          | Some ma \<Rightarrow>
              (case ma_grease_pencil ma of
                 None \<Rightarrow> skip
               | Some gpcolor \<Rightarrow> do {
                   r \<leftarrow> row self_layout [(''align'', ABool True)];
                   set_attr r ''enabled'' (ABool (\<not> lock gpcolor));
                   ui_prop r (OMaterial ma) ''name''
                     [(''text'', AStr ''''), (''emboss'', ABool False), (''icon'', AStr ''NONE'')];
                   r \<leftarrow> row self_layout [(''align'', ABool True)];
                   ui_prop r (OGPColor gpcolor) ''ghost''
                     [(''text'', AStr ''''),
                      (''icon'', AStr (if ghost gpcolor then ''ONIONSKIN_OFF''
                                       else ''ONIONSKIN_ON'')),
                      (''emboss'', ABool False)];
                   ui_prop r (OGPColor gpcolor) ''hide''
                     [(''text'', AStr ''''), (''emboss'', ABool False)];
                   ui_prop r (OGPColor gpcolor) ''lock''
                     [(''text'', AStr ''''), (''emboss'', ABool False)]
                 }))
       } else if layout_type = ''GRID'' then do {
         set_attr self_layout ''alignment'' (AStr ''CENTER'');
         label self_layout [(''text'', AStr ''''), (''icon_value'', AInt icon)]
       } else skip)"

text \<open>\<open>ma and ma.grease_pencil\<close>.\<close>

definition GPMaterialButtonsPanel_poll :: "bl_context \<Rightarrow> error + pyobj" where
  "GPMaterialButtonsPanel_poll ctx =
     Inr (case ctx_material ctx of
            None \<Rightarrow> PyNone
          | Some ma \<Rightarrow>
              (case ma_grease_pencil ma of
                 None \<Rightarrow> PyNone
               | Some gpcolor \<Rightarrow> PyObj (OGPColor gpcolor)))"

text \<open>\<open>found_material or found_object\<close>: the left operand when it is truthy, else the right.\<close>

definition MATERIAL_PT_gpencil_slots_poll :: "bl_context \<Rightarrow> error + pyobj" where
  "MATERIAL_PT_gpencil_slots_poll ctx =
     (let found_material =
            (case ctx_material ctx of
               None \<Rightarrow> PyNone
             | Some ma \<Rightarrow>
                 (case ma_grease_pencil ma of
                    None \<Rightarrow> PyNone
                  | Some gpcolor \<Rightarrow> PyObj (OGPColor gpcolor)));
          found_object =
            (case ctx_object ctx of
               None \<Rightarrow> PyNone
             | Some ob \<Rightarrow> PyBool (ob_type ob = ''GREASEPENCIL''))
      in Inr (if truthy found_material then found_material else found_object))"

definition MATERIAL_PT_gpencil_surface_draw :: "bl_context \<Rightarrow> error + call list" where
  "MATERIAL_PT_gpencil_surface_draw ctx =
     Inr (run_layout (do {
       set_attr self_layout ''use_property_split'' (ABool True);
       (case ctx_material ctx of
          None \<Rightarrow> skip
        | Some ma \<Rightarrow>
            (case ma_grease_pencil ma of
               None \<Rightarrow> skip
             | Some gpcolor \<Rightarrow> ui_prop self_layout (OGPColor gpcolor) ''stroke_wetness'' []))
     }))"

text \<open>\<open>GPMaterialColorPalettePanel.set_shaded_color_palette_width\<close>, for a paint that is not \<open>None\<close>.\<close>

definition set_shaded_color_palette_width :: "lid \<Rightarrow> paint \<Rightarrow> (ui, unit) state" where
  "set_shaded_color_palette_width l paint =
     (case paint_palette paint of
        None \<Rightarrow> skip
      | Some palette \<Rightarrow>
          if shader_count palette = 0 then skip
          else set_attr l ''ui_units_x''
                 (AInt (if shader_count palette \<ge> 10 then shader_count palette
                        else 2 * shader_count palette)))"

text \<open>
  The three palette popovers differ in the target property only. \<open>context.material\<close> is
  dereferenced first, then \<open>paint.palette\<close> inside the width helper.
\<close>

definition palette_panel_draw :: "string \<Rightarrow> bl_context \<Rightarrow> error + call list" where
  "palette_panel_draw target_property ctx =
     (case ctx_material ctx of
        None \<Rightarrow> Inl AttributeError
      | Some ma \<Rightarrow>
          (case gpencil_paint (scene_tool_settings (ctx_scene ctx)) of
             None \<Rightarrow> Inl AttributeError
           | Some paint \<Rightarrow> Inr (run_layout (do {
               set_shaded_color_palette_width self_layout paint;
               template_ID self_layout (OPaint paint) ''palette'' [(''new'', AStr ''palette.new'')];
               (case paint_palette paint of
                  None \<Rightarrow> skip
                | Some palette \<Rightarrow>
                    template_palette self_layout (OPaint paint) ''palette''
                      [(''target'', (case ma_grease_pencil ma of
                                       None \<Rightarrow> ANone
                                     | Some gpcolor \<Rightarrow> AObj (OGPColor gpcolor))),
                       (''target_property'', AStr target_property)])
             }))))"

definition MATERIAL_PT_gpencil_strokecolor_palette_draw :: "bl_context \<Rightarrow> error + call list" where
  "MATERIAL_PT_gpencil_strokecolor_palette_draw = palette_panel_draw ''color''"

definition MATERIAL_PT_gpencil_fillcolor_palette_draw :: "bl_context \<Rightarrow> error + call list" where
  "MATERIAL_PT_gpencil_fillcolor_palette_draw = palette_panel_draw ''fill_color''"

definition MATERIAL_PT_gpencil_mixcolor_palette_draw :: "bl_context \<Rightarrow> error + call list" where
  "MATERIAL_PT_gpencil_mixcolor_palette_draw = palette_panel_draw ''mix_color''"

definition MATERIAL_PT_gpencil_strokecolor_draw_header :: "bl_context \<Rightarrow> error + call list" where
  "MATERIAL_PT_gpencil_strokecolor_draw_header ctx =
     Inr (run_layout
       (case ctx_material ctx of
          None \<Rightarrow> skip
        | Some ma \<Rightarrow>
            (case ma_grease_pencil ma of
               None \<Rightarrow> skip
             | Some gpcolor \<Rightarrow>
                 ui_prop self_layout (OGPColor gpcolor) ''show_stroke'' [(''text'', AStr '''')])))"

text \<open>The \<open>heading="Base Color"\<close> row with its palette popover, shared by three panels.\<close>

definition color_row :: "lid \<Rightarrow> gpcolor \<Rightarrow> string \<Rightarrow> string \<Rightarrow> string \<Rightarrow> (ui, unit) state" where
  "color_row col gpcolor heading panel property = do {
     r \<leftarrow> row col [(''heading'', AStr heading), (''align'', ABool True)];
     popover r [(''panel'', AStr panel), (''icon'', AStr ''COLOR''), (''text'', AStr '''')];
     row2 \<leftarrow> row r [(''align'', ABool True)];
     ui_prop row2 (OGPColor gpcolor) property [(''text'', AStr '''')];
     prop_decorator row2 (OGPColor gpcolor) property
   }"

definition MATERIAL_PT_gpencil_strokecolor_draw :: "bl_context \<Rightarrow> error + call list" where
  "MATERIAL_PT_gpencil_strokecolor_draw ctx =
     Inr (run_layout (do {
       set_attr self_layout ''use_property_split'' (ABool True);
       (case ctx_material ctx of
          None \<Rightarrow> skip
        | Some ma \<Rightarrow>
            (case ma_grease_pencil ma of
               None \<Rightarrow> skip
             | Some gpcolor \<Rightarrow> do {
                 col \<leftarrow> column self_layout [];
                 ui_prop col (OGPColor gpcolor) ''mode'' [];
                 ui_prop col (OGPColor gpcolor) ''stroke_style'' [(''text'', AStr ''Style'')];
                 color_row col gpcolor ''Base Color''
                   ''MATERIAL_PT_gpencil_strokecolor_palette'' ''color'';
                 if stroke_style gpcolor = ''TEXTURE'' then do {
                   separator self_layout [];
                   col \<leftarrow> column self_layout [];
                   r \<leftarrow> row col [];
                   col \<leftarrow> column r [(''align'', ABool True)];
                   template_ID col (OGPColor gpcolor) ''stroke_image''
                     [(''open'', AStr ''image.open'')];
                   col \<leftarrow> column self_layout [];
                   set_attr col ''enabled'' (ABool (\<not> lock gpcolor));
                   ui_prop col (OGPColor gpcolor) ''mix_stroke_factor''
                     [(''text'', AStr ''Blend''), (''slider'', ABool True)];
                   ui_prop col (OGPColor gpcolor) ''texture_density'' [(''slider'', ABool True)];
                   separator col [];
                   ui_prop col (OGPColor gpcolor) ''alignment_rotation'' [(''text'', AStr ''Angle'')];
                   ui_prop col (OGPColor gpcolor) ''texture_angle_variation'' [];
                   ui_prop col (OGPColor gpcolor) ''smooth_texture'' []
                 } else skip
               }))
     }))"

definition MATERIAL_PT_gpencil_strokecolor_default_draw :: "bl_context \<Rightarrow> error + call list" where
  "MATERIAL_PT_gpencil_strokecolor_default_draw ctx =
     Inr (run_layout (do {
       set_attr self_layout ''use_property_split'' (ABool True);
       (case ctx_material ctx of
          None \<Rightarrow> skip
        | Some ma \<Rightarrow>
            (case ma_grease_pencil ma of
               None \<Rightarrow> skip
             | Some gpcolor \<Rightarrow> do {
                 col \<leftarrow> column self_layout [];
                 set_attr col ''enabled'' (ABool (\<not> lock gpcolor));
                 (if mode gpcolor = ''DOTS'' \<or> mode gpcolor = ''BOX''
                  then ui_prop col (OGPColor gpcolor) ''alignment_mode'' [] else skip);
                 (if stroke_style gpcolor = ''TEXTURE'' \<and> mode gpcolor = ''LINE''
                  then ui_prop col (OGPColor gpcolor) ''pixel_size'' [(''text'', AStr ''UV Factor'')]
                  else skip);
                 ui_prop col (OGPColor gpcolor) ''use_stroke_holdout'' [];
                 (if mode gpcolor = ''LINE''
                  then ui_prop col (OGPColor gpcolor) ''use_overlap_strokes'' [] else skip)
               }))
     }))"

text \<open>
  The Fill panel does not test for \<open>None\<close>: \<open>ma.grease_pencil\<close> fails on a missing
  material, \<open>layout.prop(gpcolor, ...)\<close> on missing Grease Pencil settings.
\<close>

definition MATERIAL_PT_gpencil_fillcolor_draw_header :: "bl_context \<Rightarrow> error + call list" where
  "MATERIAL_PT_gpencil_fillcolor_draw_header ctx =
     (case ctx_material ctx of
        None \<Rightarrow> Inl AttributeError
      | Some ma \<Rightarrow>
          (case ma_grease_pencil ma of
             None \<Rightarrow> Inl TypeError
           | Some gpcolor \<Rightarrow> Inr (run_layout
               (ui_prop self_layout (OGPColor gpcolor) ''show_fill'' [(''text'', AStr '''')]))))"

definition MATERIAL_PT_gpencil_fillcolor_draw :: "bl_context \<Rightarrow> error + call list" where
  "MATERIAL_PT_gpencil_fillcolor_draw ctx =
     (case ctx_material ctx of
        None \<Rightarrow> Inl AttributeError
      | Some ma \<Rightarrow>
          (case ma_grease_pencil ma of
             None \<Rightarrow> Inl TypeError
           | Some gpcolor \<Rightarrow> Inr (run_layout (do {
               set_attr self_layout ''use_property_split'' (ABool True);
               col \<leftarrow> column self_layout [];
               ui_prop col (OGPColor gpcolor) ''fill_style'' [(''text'', AStr ''Style'')];
               (if fill_style gpcolor = ''GRADIENT''
                then ui_prop col (OGPColor gpcolor) ''gradient_type'' [] else skip);
               (if fill_style gpcolor = ''GRADIENT'' \<or> fill_style gpcolor = ''SOLID''
                then color_row col gpcolor ''Base Color''
                       ''MATERIAL_PT_gpencil_fillcolor_palette'' ''fill_color''
                else skip);
               (if fill_style gpcolor = ''GRADIENT'' then do {
                  color_row col gpcolor ''Secondary Color''
                    ''MATERIAL_PT_gpencil_mixcolor_palette'' ''mix_color'';
                  ui_prop col (OGPColor gpcolor) ''mix_factor''
                    [(''text'', AStr ''Blend''), (''slider'', ABool True)];
                  ui_prop col (OGPColor gpcolor) ''flip'' [(''text'', AStr ''Flip Colors'')]
                } else skip)
             }))))"

definition MATERIAL_PT_gpencil_fillcolor_ondine_poll :: "bl_context \<Rightarrow> error + pyobj" where
  "MATERIAL_PT_gpencil_fillcolor_ondine_poll ctx =
     Inr (case ctx_material ctx of
            None \<Rightarrow> PyBool False
          | Some ma \<Rightarrow>
              (case ma_grease_pencil ma of
                 None \<Rightarrow> PyBool False
               | Some gpcolor \<Rightarrow> PyBool (fill_style gpcolor = ''GRADIENT'')))"

definition MATERIAL_PT_gpencil_fillcolor_ondine_draw :: "bl_context \<Rightarrow> error + call list" where
  "MATERIAL_PT_gpencil_fillcolor_ondine_draw ctx =
     (case ctx_material ctx of
        None \<Rightarrow> Inl AttributeError
      | Some ma \<Rightarrow>
          (case ma_grease_pencil ma of
             None \<Rightarrow> Inl AttributeError
           | Some gpcolor \<Rightarrow> Inr (run_layout (do {
               set_attr self_layout ''use_property_split'' (ABool True);
               col \<leftarrow> column self_layout [];
               set_attr col ''enabled'' (ABool (\<not> lock gpcolor));
               if fill_style gpcolor = ''GRADIENT'' then
                 (if gradient_type gpcolor = ''LINEAR'' then do {
                    ui_prop col (OGPColor gpcolor) ''texture_angle'' [(''text'', AStr ''Rotation'')];
                    col \<leftarrow> column self_layout [(''align'', ABool True)];
                    set_attr col ''enabled'' (ABool (\<not> lock gpcolor));
                    ui_prop col (OGPColor gpcolor) ''ondine_gradient_offset''
                      [(''text'', AStr ''Base Offset''), (''index'', AInt 0)];
                    ui_prop col (OGPColor gpcolor) ''ondine_gradient_offset''
                      [(''text'', AStr ''Secondary''), (''index'', AInt 1)]
                  } else do {
                    ui_prop col (OGPColor gpcolor) ''ondine_gradient_offset''
                      [(''text'', AStr ''Offset'')];
                    ui_prop col (OGPColor gpcolor) ''ondine_gradient_scale''
                      [(''text'', AStr ''Scale'')]
                  })
               else skip
             }))))"

definition MATERIAL_PT_gpencil_fillcolor_default_draw :: "bl_context \<Rightarrow> error + call list" where
  "MATERIAL_PT_gpencil_fillcolor_default_draw ctx =
     Inr (run_layout (do {
       set_attr self_layout ''use_property_split'' (ABool True);
       (case ctx_material ctx of
          None \<Rightarrow> skip
        | Some ma \<Rightarrow>
            (case ma_grease_pencil ma of
               None \<Rightarrow> skip
             | Some gpcolor \<Rightarrow> do {
                 col \<leftarrow> column self_layout [];
                 set_attr col ''enabled'' (ABool (\<not> lock gpcolor));
                 if fill_style gpcolor = ''GRADIENT'' then do {
                   ui_prop col (OGPColor gpcolor) ''texture_offset'' [(''text'', AStr ''Location'')];
                   r \<leftarrow> row col [];
                   set_attr r ''enabled'' (ABool (gradient_type gpcolor = ''LINEAR''));
                   ui_prop r (OGPColor gpcolor) ''texture_angle'' [(''text'', AStr ''Rotation'')];
                   ui_prop col (OGPColor gpcolor) ''texture_scale'' [(''text'', AStr ''Scale'')];
                   ui_prop col (OGPColor gpcolor) ''use_fill_holdout'' []
                 } else if fill_style gpcolor = ''SOLID'' then
                   ui_prop col (OGPColor gpcolor) ''use_fill_holdout'' []
                 else if fill_style gpcolor = ''TEXTURE'' then do {
                   color_row col gpcolor ''Base Color''
                     ''MATERIAL_PT_gpencil_fillcolor_palette'' ''fill_color'';
                   ui_prop col (OGPColor gpcolor) ''use_fill_holdout'' [];
                   separator col [];
                   template_ID col (OGPColor gpcolor) ''fill_image''
                     [(''open'', AStr ''image.open'')];
                   ui_prop col (OGPColor gpcolor) ''mix_factor''
                     [(''text'', AStr ''Blend''), (''slider'', ABool True)];
                   ui_prop col (OGPColor gpcolor) ''texture_offset'' [(''text'', AStr ''Location'')];
                   ui_prop col (OGPColor gpcolor) ''texture_angle'' [(''text'', AStr ''Rotation'')];
                   ui_prop col (OGPColor gpcolor) ''texture_scale'' [(''text'', AStr ''Scale'')];
                   ui_prop col (OGPColor gpcolor) ''texture_clamp'' [(''text'', AStr ''Clip Image'')]
                 } else skip
               }))
     }))"

definition MATERIAL_PT_gpencil_preview_draw :: "bl_context \<Rightarrow> error + call list" where
  "MATERIAL_PT_gpencil_preview_draw ctx =
     Inr (run_layout (template_preview self_layout (map_option OMaterial (ctx_material ctx))))"

definition MATERIAL_PT_gpencil_settings_draw :: "bl_context \<Rightarrow> error + call list" where
  "MATERIAL_PT_gpencil_settings_draw ctx =
     (case ctx_material ctx of
        None \<Rightarrow> Inl AttributeError
      | Some ma \<Rightarrow>
          (case ma_grease_pencil ma of
             None \<Rightarrow> Inl TypeError
           | Some gpcolor \<Rightarrow> Inr (run_layout (do {
               set_attr self_layout ''use_property_split'' (ABool True);
               ui_prop self_layout (OGPColor gpcolor) ''pass_index'' []
             }))))"

section \<open>The classes and their methods\<close>

text \<open>
  The panel classes of the four files. A class inherits \<open>poll\<close> from the first base that
  defines it; \<open>None\<close> stands for a class with no \<open>poll\<close> (the palette popovers), and for
  a \<open>draw\<close> or \<open>draw_header\<close> whose body is in a mixin outside these files.
\<close>

datatype panel =
    DATA_PT_context_gpencil
  | DATA_PT_gpencil_layers
  | DATA_PT_gpencil_layer_masks
  | DATA_PT_gpencil_layer_default_render
  | DATA_PT_gpencil_layer_transform
  | DATA_PT_gpencil_layer_adjustments
  | DATA_PT_gpencil_layer_relations
  | DATA_PT_gpencil_layer_display
  | DATA_PT_gpencil_onion_skinning
  | DATA_PT_gpencil_onion_skinning_custom_colors
  | DATA_PT_gpencil_onion_skinning_display
  | DATA_PT_gpencil_vertex_groups
  | DATA_PT_gpencil_morph_targets
  | DATA_PT_gpencil_strokes
  | DATA_PT_gpencil_display
  | DATA_PT_gpencil_canvas
  | DATA_PT_custom_props_gpencil
  | MATERIAL_PT_gpencil_slots
  | MATERIAL_PT_gpencil_surface
  | MATERIAL_PT_gpencil_strokecolor_palette
  | MATERIAL_PT_gpencil_strokecolor
  | MATERIAL_PT_gpencil_strokecolor_default
  | MATERIAL_PT_gpencil_fillcolor_palette
  | MATERIAL_PT_gpencil_mixcolor_palette
  | MATERIAL_PT_gpencil_fillcolor
  | MATERIAL_PT_gpencil_fillcolor_ondine
  | MATERIAL_PT_gpencil_fillcolor_default
  | MATERIAL_PT_gpencil_animation
  | MATERIAL_PT_gpencil_preview
  | MATERIAL_PT_gpencil_custom_props
  | MATERIAL_PT_gpencil_settings
  | GPENCIL_PT_MorphTargetsNPanel
  | GREASE_PENCIL_PT_ShapeKeysNPanel

fun poll_of :: "panel \<Rightarrow> (bl_context \<Rightarrow> error + pyobj) option" where
  "poll_of DATA_PT_context_gpencil = Some DataButtonsPanel_poll"
| "poll_of DATA_PT_gpencil_layers = Some DataButtonsPanel_poll"
| "poll_of DATA_PT_gpencil_layer_masks = Some LayerDataButtonsPanel_poll"
| "poll_of DATA_PT_gpencil_layer_default_render = Some LayerDataButtonsPanel_poll"
| "poll_of DATA_PT_gpencil_layer_transform = Some LayerDataButtonsPanel_poll"
| "poll_of DATA_PT_gpencil_layer_adjustments = Some LayerDataButtonsPanel_poll"
| "poll_of DATA_PT_gpencil_layer_relations = Some LayerDataButtonsPanel_poll"
| "poll_of DATA_PT_gpencil_layer_display = Some LayerDataButtonsPanel_poll"
| "poll_of DATA_PT_gpencil_onion_skinning = Some DataButtonsPanel_poll"
| "poll_of DATA_PT_gpencil_onion_skinning_custom_colors = Some DataButtonsPanel_poll"
| "poll_of DATA_PT_gpencil_onion_skinning_display = Some DataButtonsPanel_poll"
| "poll_of DATA_PT_gpencil_vertex_groups = Some ObjectButtonsPanel_poll"
| "poll_of DATA_PT_gpencil_morph_targets = Some DataButtonsPanel_poll"
| "poll_of DATA_PT_gpencil_strokes = Some DataButtonsPanel_poll"
| "poll_of DATA_PT_gpencil_display = Some DataButtonsPanel_poll"
| "poll_of DATA_PT_gpencil_canvas = Some DataButtonsPanel_poll"
| "poll_of DATA_PT_custom_props_gpencil = Some DataButtonsPanel_poll"
| "poll_of MATERIAL_PT_gpencil_slots = Some MATERIAL_PT_gpencil_slots_poll"
| "poll_of MATERIAL_PT_gpencil_surface = Some GPMaterialButtonsPanel_poll"
| "poll_of MATERIAL_PT_gpencil_strokecolor_palette = None"
| "poll_of MATERIAL_PT_gpencil_strokecolor = Some GPMaterialButtonsPanel_poll"
| "poll_of MATERIAL_PT_gpencil_strokecolor_default = Some GPMaterialButtonsPanel_poll"
| "poll_of MATERIAL_PT_gpencil_fillcolor_palette = None"
| "poll_of MATERIAL_PT_gpencil_mixcolor_palette = None"
| "poll_of MATERIAL_PT_gpencil_fillcolor = Some GPMaterialButtonsPanel_poll"
| "poll_of MATERIAL_PT_gpencil_fillcolor_ondine = Some MATERIAL_PT_gpencil_fillcolor_ondine_poll"
| "poll_of MATERIAL_PT_gpencil_fillcolor_default = Some GPMaterialButtonsPanel_poll"
| "poll_of MATERIAL_PT_gpencil_animation = Some GPMaterialButtonsPanel_poll"
| "poll_of MATERIAL_PT_gpencil_preview = Some GPMaterialButtonsPanel_poll"
| "poll_of MATERIAL_PT_gpencil_custom_props = Some GPMaterialButtonsPanel_poll"
| "poll_of MATERIAL_PT_gpencil_settings = Some GPMaterialButtonsPanel_poll"
| "poll_of GPENCIL_PT_MorphTargetsNPanel = Some GPENCIL_PT_MorphTargetsNPanel_poll"
| "poll_of GREASE_PENCIL_PT_ShapeKeysNPanel = Some GREASE_PENCIL_PT_ShapeKeysNPanel_poll"

fun draw_of :: "panel \<Rightarrow> (bl_context \<Rightarrow> error + call list) option" where
  "draw_of DATA_PT_context_gpencil = Some DATA_PT_context_gpencil_draw"
| "draw_of DATA_PT_gpencil_layers = Some DATA_PT_gpencil_layers_draw"
| "draw_of DATA_PT_gpencil_layer_default_render = Some DATA_PT_gpencil_layer_default_render_draw"
| "draw_of DATA_PT_gpencil_onion_skinning = Some DATA_PT_gpencil_onion_skinning_draw"
| "draw_of DATA_PT_gpencil_onion_skinning_custom_colors =
     Some DATA_PT_gpencil_onion_skinning_custom_colors_draw"
| "draw_of DATA_PT_gpencil_onion_skinning_display =
     Some DATA_PT_gpencil_onion_skinning_display_draw"
| "draw_of DATA_PT_gpencil_vertex_groups = Some DATA_PT_gpencil_vertex_groups_draw"
| "draw_of DATA_PT_gpencil_morph_targets = Some DATA_PT_gpencil_morph_targets_draw"
| "draw_of DATA_PT_gpencil_strokes = Some DATA_PT_gpencil_strokes_draw"
| "draw_of DATA_PT_gpencil_display = Some DATA_PT_gpencil_display_draw"
| "draw_of DATA_PT_gpencil_canvas = Some DATA_PT_gpencil_canvas_draw"
| "draw_of MATERIAL_PT_gpencil_surface = Some MATERIAL_PT_gpencil_surface_draw"
| "draw_of MATERIAL_PT_gpencil_strokecolor_palette =
     Some MATERIAL_PT_gpencil_strokecolor_palette_draw"
| "draw_of MATERIAL_PT_gpencil_strokecolor = Some MATERIAL_PT_gpencil_strokecolor_draw"
| "draw_of MATERIAL_PT_gpencil_strokecolor_default =
     Some MATERIAL_PT_gpencil_strokecolor_default_draw"
| "draw_of MATERIAL_PT_gpencil_fillcolor_palette = Some MATERIAL_PT_gpencil_fillcolor_palette_draw"
| "draw_of MATERIAL_PT_gpencil_mixcolor_palette = Some MATERIAL_PT_gpencil_mixcolor_palette_draw"
| "draw_of MATERIAL_PT_gpencil_fillcolor = Some MATERIAL_PT_gpencil_fillcolor_draw"
| "draw_of MATERIAL_PT_gpencil_fillcolor_ondine = Some MATERIAL_PT_gpencil_fillcolor_ondine_draw"
| "draw_of MATERIAL_PT_gpencil_fillcolor_default =
     Some MATERIAL_PT_gpencil_fillcolor_default_draw"
| "draw_of MATERIAL_PT_gpencil_preview = Some MATERIAL_PT_gpencil_preview_draw"
| "draw_of MATERIAL_PT_gpencil_settings = Some MATERIAL_PT_gpencil_settings_draw"
| "draw_of GPENCIL_PT_MorphTargetsNPanel = Some GPENCIL_PT_MorphTargetsNPanel_draw"
| "draw_of GREASE_PENCIL_PT_ShapeKeysNPanel = Some GREASE_PENCIL_PT_ShapeKeysNPanel_draw"
| "draw_of _ = None"

fun draw_header_of :: "panel \<Rightarrow> (bl_context \<Rightarrow> error + call list) option" where
  "draw_header_of DATA_PT_gpencil_onion_skinning_custom_colors =
     Some DATA_PT_gpencil_onion_skinning_custom_colors_draw_header"
| "draw_header_of MATERIAL_PT_gpencil_strokecolor =
     Some MATERIAL_PT_gpencil_strokecolor_draw_header"
| "draw_header_of MATERIAL_PT_gpencil_fillcolor = Some MATERIAL_PT_gpencil_fillcolor_draw_header"
| "draw_header_of _ = None"

datatype menu_class =
    GPENCIL_MT_layer_context_menu
  | GPENCIL_MT_gpencil_vertex_group
  | DATA_MT_morph_targets_context_menu
  | GPENCIL_MT_material_context_menu

fun menu_draw :: "menu_class \<Rightarrow> bl_context \<Rightarrow> error + call list" where
  "menu_draw GPENCIL_MT_layer_context_menu = GPENCIL_MT_layer_context_menu_draw"
| "menu_draw GPENCIL_MT_gpencil_vertex_group = GPENCIL_MT_gpencil_vertex_group_draw"
| "menu_draw DATA_MT_morph_targets_context_menu = DATA_MT_morph_targets_context_menu_draw"
| "menu_draw GPENCIL_MT_material_context_menu = GPENCIL_MT_material_context_menu_draw"

text \<open>The host draws a panel only when its \<open>poll\<close>, if it has one, returns a truthy value.\<close>

definition poll_passes :: "panel \<Rightarrow> bl_context \<Rightarrow> bool" where
  "poll_passes p ctx =
     (case poll_of p of
        None \<Rightarrow> True
      | Some poll \<Rightarrow> (case poll ctx of Inl e \<Rightarrow> False | Inr v \<Rightarrow> truthy v))"

definition raises :: "error + 'a \<Rightarrow> bool" where
  "raises r = (case r of Inl e \<Rightarrow> True | Inr v \<Rightarrow> False)"

section \<open>Reading a list of layout calls\<close>

text \<open>The \<open>prop\<close> widgets of a drawing, in order: owner, property name and keyword arguments.\<close>

fun props_of :: "call list \<Rightarrow> (owner \<times> string \<times> kwargs) list" where
  "props_of [] = []"
| "props_of (Prop l data property kw # cs) = (data, property, kw) # props_of cs"
| "props_of (c # cs) = props_of cs"

text \<open>The operator buttons of a drawing, in order: operator name and the properties set on it.\<close>

fun operators_of :: "call list \<Rightarrow> (string \<times> kwargs) list" where
  "operators_of [] = []"
| "operators_of (Operator l idname kw props # cs) = (idname, props) # operators_of cs"
| "operators_of (c # cs) = operators_of cs"

text \<open>The owners of the \<open>prop\<close> widgets bound to the property \<open>name\<close>, in order.\<close>

definition shown :: "string \<Rightarrow> call list \<Rightarrow> owner list" where
  "shown name cs = map fst (filter (\<lambda>(data, property, kw). property = name) (props_of cs))"

section \<open>Effects of the draw methods\<close>

text \<open>A list of calls that assigns to no attribute of a host data object.\<close>

definition no_data_writes :: "call list \<Rightarrow> bool" where
  "no_data_writes cs = (\<forall>c \<in> set cs. \<not> writes_data c)"

text \<open>A layout computation that keeps this property of the calls made so far.\<close>

definition ui_only :: "(ui, 'a) state \<Rightarrow> bool" where
  "ui_only m = (\<forall>s. no_data_writes (calls s) \<longrightarrow> no_data_writes (calls (snd (run_state m s))))"

section \<open>Concrete host states\<close>

definition ex_gpd :: gpencil where
  "ex_gpd = \<lparr>layers = \<lparr>layers_items = [], layers_active = None\<rparr>,
             morph_targets = \<lparr>morph_targets_items = [], morph_targets_active = None\<rparr>,
             watercolor = False, onion_mode = ''ABSOLUTE'', users = 1,
             use_ghost_custom_colors = False, in_morph_edit_mode = False,
             stroke_thickness_space = ''WORLDSPACE''\<rparr>"

definition ex_mt_smile :: morph_target where
  "ex_mt_smile = \<lparr>mt_name = ''smile'', order_nr = 2, morphed_layer_order = False\<rparr>"

definition ex_mt_blink :: morph_target where
  "ex_mt_blink = \<lparr>mt_name = ''blink'', order_nr = 1, morphed_layer_order = False\<rparr>"

definition ex_gpd_morphs :: gpencil where
  "ex_gpd_morphs = ex_gpd\<lparr>morph_targets :=
     \<lparr>morph_targets_items = [ex_mt_smile, ex_mt_blink],
      morph_targets_active = Some ex_mt_smile\<rparr>\<rparr>"

definition ex_object :: "string \<Rightarrow> obdata \<Rightarrow> bl_object" where
  "ex_object ty d = \<lparr>ob_type = ty, ob_data = d,
     vertex_groups = \<lparr>vertex_groups_items = [], vertex_groups_active = None\<rparr>,
     show_in_front = False\<rparr>"

definition ex_ctx :: bl_context where
  "ex_ctx = \<lparr>ctx_object = None, ctx_active_object = None, ctx_gpencil = None,
             ctx_grease_pencil = None, ctx_material = None, ctx_space_data = 0,
             ctx_tool_settings = \<lparr>gpencil_paint = None\<rparr>,
             ctx_scene = \<lparr>scene_tool_settings = \<lparr>gpencil_paint = None\<rparr>\<rparr>\<rparr>"

definition ex_gpcolor :: gpcolor where
  "ex_gpcolor = \<lparr>lock = False, ghost = False, stroke_style = ''SOLID'', mode = ''LINE'',
                 fill_style = ''SOLID'', gradient_type = ''LINEAR''\<rparr>"

definition ex_material :: material where
  "ex_material = \<lparr>ma_grease_pencil = Some ex_gpcolor\<rparr>"

definition ex_grease_pencil :: grease_pencil where
  "ex_grease_pencil = \<lparr>shape_keys = [\<lparr>sk_name = ''wide''\<rparr>, \<lparr>sk_name = ''narrow''\<rparr>]\<rparr>"


section \<open>Theorems\<close>

lemmas layout_defs =
  run_layout_def emit_def sub_layout_def row_def column_def split_layout_def grid_flow_def
  set_attr_def ui_prop_def prop_decorator_def operator_def operator_menu_enum_def label_def
  separator_def menu_def popover_def template_ID_def template_list_def template_palette_def
  template_preview_def skip_def

text \<open>
  C1. Whenever a Grease Pencil data-block is present but has no active layer, the
  \<open>poll\<close> that the six layer sub-panels (Masks, Default Render, Transform, Adjustments,
  Relations, Display) inherit from \<open>LayerDataButtonsPanel\<close> returns a falsy value, so the
  host does not draw them.
\<close>

theorem layer_panels_hidden_without_active_layer:
  assumes "ctx_gpencil ctx = Some gpencil"
    and "layers_active (layers gpencil) = None"
    and "p \<in> {DATA_PT_gpencil_layer_masks, DATA_PT_gpencil_layer_default_render,
               DATA_PT_gpencil_layer_transform, DATA_PT_gpencil_layer_adjustments,
               DATA_PT_gpencil_layer_relations, DATA_PT_gpencil_layer_display}"
  shows "poll_of p = Some LayerDataButtonsPanel_poll
       \<and> (\<exists>v. LayerDataButtonsPanel_poll ctx = Inr v \<and> \<not> truthy v)
       \<and> \<not> poll_passes p ctx"
  using assms by (auto simp: LayerDataButtonsPanel_poll_def poll_passes_def)

theorem layer_panels_hidden_witness:
  "poll_of DATA_PT_gpencil_layer_masks = Some LayerDataButtonsPanel_poll
     \<and> (\<exists>v. LayerDataButtonsPanel_poll (ex_ctx\<lparr>ctx_gpencil := Some ex_gpd\<rparr>) = Inr v
             \<and> \<not> truthy v)
     \<and> \<not> poll_passes DATA_PT_gpencil_layer_masks (ex_ctx\<lparr>ctx_gpencil := Some ex_gpd\<rparr>)"
  by (rule layer_panels_hidden_without_active_layer [of _ ex_gpd])
     (simp_all add: ex_ctx_def ex_gpd_def)

text \<open>
  C2. \<open>GPENCIL_PT_MorphTargetsNPanel.poll\<close> returns \<open>False\<close> when the context has no
  object, when the object's type is not \<open>'GPENCIL'\<close>, and when the Grease Pencil data
  has no morph targets; in every other case it returns \<open>True\<close>.
\<close>

theorem MorphTargetsNPanel_poll_hidden_iff_no_morph_targets:
  "(ctx_object ctx = None \<longrightarrow>
      GPENCIL_PT_MorphTargetsNPanel_poll ctx = Inr (PyBool False)) \<and>
   (\<forall>ob. ctx_object ctx = Some ob \<and> ob_type ob \<noteq> ''GPENCIL'' \<longrightarrow>
      GPENCIL_PT_MorphTargetsNPanel_poll ctx = Inr (PyBool False)) \<and>
   (\<forall>ob gpd. ctx_object ctx = Some ob \<and> ob_type ob = ''GPENCIL'' \<and>
        ob_data ob = DataGpencil gpd \<longrightarrow>
      GPENCIL_PT_MorphTargetsNPanel_poll ctx =
        Inr (PyBool (morph_targets_items (morph_targets gpd) \<noteq> [])))"
  by (simp add: GPENCIL_PT_MorphTargetsNPanel_poll_def)

theorem MorphTargetsNPanel_poll_witness:
  "GPENCIL_PT_MorphTargetsNPanel_poll ex_ctx = Inr (PyBool False) \<and>
   GPENCIL_PT_MorphTargetsNPanel_poll
     (ex_ctx\<lparr>ctx_object := Some (ex_object ''MESH'' DataOther)\<rparr>) = Inr (PyBool False) \<and>
   GPENCIL_PT_MorphTargetsNPanel_poll
     (ex_ctx\<lparr>ctx_object := Some (ex_object ''GPENCIL'' (DataGpencil ex_gpd))\<rparr>)
       = Inr (PyBool False) \<and>
   GPENCIL_PT_MorphTargetsNPanel_poll
     (ex_ctx\<lparr>ctx_object := Some (ex_object ''GPENCIL'' (DataGpencil ex_gpd_morphs))\<rparr>)
       = Inr (PyBool True)"
  using MorphTargetsNPanel_poll_hidden_iff_no_morph_targets [of ex_ctx]
    MorphTargetsNPanel_poll_hidden_iff_no_morph_targets
      [of "ex_ctx\<lparr>ctx_object := Some (ex_object ''MESH'' DataOther)\<rparr>"]
    MorphTargetsNPanel_poll_hidden_iff_no_morph_targets
      [of "ex_ctx\<lparr>ctx_object := Some (ex_object ''GPENCIL'' (DataGpencil ex_gpd))\<rparr>"]
    MorphTargetsNPanel_poll_hidden_iff_no_morph_targets
      [of "ex_ctx\<lparr>ctx_object := Some (ex_object ''GPENCIL'' (DataGpencil ex_gpd_morphs))\<rparr>"]
  by (simp add: ex_ctx_def ex_object_def ex_gpd_def ex_gpd_morphs_def)

text \<open>
  C7. Whatever the context, the material context menu invokes these operators, in this
  order and no others: \<open>material_reveal\<close>; \<open>material_hide\<close> with \<open>invert = True\<close>;
  \<open>material_lock_all\<close>; \<open>material_unlock_all\<close>; \<open>material_lock_unselected\<close>;
  \<open>material_lock_unused\<close>; \<open>material_copy_to_object\<close> with \<open>only_active = True\<close> and then
  with \<open>only_active = False\<close>; \<open>object.material_slot_remove_unused\<close>.
\<close>

theorem material_context_menu_operators:
  "\<exists>log. GPENCIL_MT_material_context_menu_draw ctx = Inr log \<and>
     operators_of log =
       [(''grease_pencil.material_reveal'', []),
        (''grease_pencil.material_hide'', [(''invert'', ABool True)]),
        (''grease_pencil.material_lock_all'', []),
        (''grease_pencil.material_unlock_all'', []),
        (''grease_pencil.material_lock_unselected'', []),
        (''grease_pencil.material_lock_unused'', []),
        (''grease_pencil.material_copy_to_object'', [(''only_active'', ABool True)]),
        (''grease_pencil.material_copy_to_object'', [(''only_active'', ABool False)]),
        (''object.material_slot_remove_unused'', [])]"
  by (simp add: GPENCIL_MT_material_context_menu_draw_def layout_defs)

text \<open>
  C10. With a Grease Pencil data-block whose layer collection is empty, the Layers panel
  passes its \<open>poll\<close> (only \<open>context.gpencil\<close> is tested), and \<open>draw\<close> adds exactly one
  widget: the \<open>gpencil.layer_add\<close> button labelled "New Layer".
\<close>

theorem layers_panel_empty_layers:
  assumes "ctx_gpencil ctx = Some gpd" and "layers_items (layers gpd) = []"
  shows "poll_passes DATA_PT_gpencil_layers ctx
       \<and> DATA_PT_gpencil_layers_draw ctx =
           Inr [SetAttr (OnLayout self_layout) ''use_property_decorate'' (ABool False),
                Operator self_layout ''gpencil.layer_add'' [(''text'', AStr ''New Layer'')] []]
       \<and> (\<exists>log. DATA_PT_gpencil_layers_draw ctx = Inr log \<and>
             filter is_widget log =
               [Operator self_layout ''gpencil.layer_add'' [(''text'', AStr ''New Layer'')] []])"
  using assms
  by (simp add: poll_passes_def DataButtonsPanel_poll_def DATA_PT_gpencil_layers_draw_def
        layout_defs)

theorem layers_panel_empty_layers_witness:
  "poll_passes DATA_PT_gpencil_layers (ex_ctx\<lparr>ctx_gpencil := Some ex_gpd\<rparr>)
   \<and> DATA_PT_gpencil_layers_draw (ex_ctx\<lparr>ctx_gpencil := Some ex_gpd\<rparr>) =
       Inr [SetAttr (OnLayout self_layout) ''use_property_decorate'' (ABool False),
            Operator self_layout ''gpencil.layer_add'' [(''text'', AStr ''New Layer'')] []]
   \<and> (\<exists>log. DATA_PT_gpencil_layers_draw (ex_ctx\<lparr>ctx_gpencil := Some ex_gpd\<rparr>) = Inr log \<and>
         filter is_widget log =
           [Operator self_layout ''gpencil.layer_add'' [(''text'', AStr ''New Layer'')] []])"
  by (rule layers_panel_empty_layers [of _ ex_gpd]) (simp_all add: ex_ctx_def ex_gpd_def)

text \<open>
  C3. For every Grease Pencil data-block, the Onion Skinning panel draws the properties
  \<open>onion_mode\<close>, \<open>onion_factor\<close> and \<open>onion_keyframe_type\<close>; after them it draws the pair
  \<open>ghost_before_range\<close>/\<open>ghost_after_range\<close> labelled "Frames Before"/"Frames After"
  exactly when \<open>onion_mode\<close> is \<open>'ABSOLUTE'\<close>, the same pair labelled "Keyframes
  Before"/"Keyframes After" exactly when it is \<open>'RELATIVE'\<close>, and neither for any other
  mode.
\<close>

theorem onion_skinning_draw_props:
  assumes "ctx_gpencil ctx = Some gpd"
  shows "\<exists>log. DATA_PT_gpencil_onion_skinning_draw ctx = Inr log \<and>
     props_of log =
       [(OGpencil gpd, ''onion_mode'', []),
        (OGpencil gpd, ''onion_factor'', [(''text'', AStr ''Opacity''), (''slider'', ABool True)]),
        (OGpencil gpd, ''onion_keyframe_type'', [])]
       @ (if onion_mode gpd = ''ABSOLUTE'' then
            [(OGpencil gpd, ''ghost_before_range'', [(''text'', AStr ''Frames Before'')]),
             (OGpencil gpd, ''ghost_after_range'', [(''text'', AStr ''Frames After'')])]
          else if onion_mode gpd = ''RELATIVE'' then
            [(OGpencil gpd, ''ghost_before_range'', [(''text'', AStr ''Keyframes Before'')]),
             (OGpencil gpd, ''ghost_after_range'', [(''text'', AStr ''Keyframes After'')])]
          else []) \<and>
     ((OGpencil gpd, ''ghost_before_range'', [(''text'', AStr ''Frames Before'')])
          \<in> set (props_of log) \<and>
      (OGpencil gpd, ''ghost_after_range'', [(''text'', AStr ''Frames After'')])
          \<in> set (props_of log)
        \<longleftrightarrow> onion_mode gpd = ''ABSOLUTE'') \<and>
     ((OGpencil gpd, ''ghost_before_range'', [(''text'', AStr ''Keyframes Before'')])
          \<in> set (props_of log) \<and>
      (OGpencil gpd, ''ghost_after_range'', [(''text'', AStr ''Keyframes After'')])
          \<in> set (props_of log)
        \<longleftrightarrow> onion_mode gpd = ''RELATIVE'') \<and>
     (onion_mode gpd \<noteq> ''ABSOLUTE'' \<and> onion_mode gpd \<noteq> ''RELATIVE'' \<longrightarrow>
        ''ghost_before_range'' \<notin> set (map (fst \<circ> snd) (props_of log)) \<and>
        ''ghost_after_range'' \<notin> set (map (fst \<circ> snd) (props_of log)))"
  using assms by (simp add: DATA_PT_gpencil_onion_skinning_draw_def layout_defs)

theorem onion_skinning_draw_props_witness:
  "(\<exists>log. DATA_PT_gpencil_onion_skinning_draw (ex_ctx\<lparr>ctx_gpencil := Some ex_gpd\<rparr>) = Inr log \<and>
      map (fst \<circ> snd) (props_of log) =
        [''onion_mode'', ''onion_factor'', ''onion_keyframe_type'',
         ''ghost_before_range'', ''ghost_after_range'']) \<and>
   (\<exists>log. DATA_PT_gpencil_onion_skinning_draw
        (ex_ctx\<lparr>ctx_gpencil := Some (ex_gpd\<lparr>onion_mode := ''SELECTED''\<rparr>)\<rparr>) = Inr log \<and>
      map (fst \<circ> snd) (props_of log) =
        [''onion_mode'', ''onion_factor'', ''onion_keyframe_type''])"
  using onion_skinning_draw_props [of "ex_ctx\<lparr>ctx_gpencil := Some ex_gpd\<rparr>" ex_gpd]
    onion_skinning_draw_props
      [of "ex_ctx\<lparr>ctx_gpencil := Some (ex_gpd\<lparr>onion_mode := ''SELECTED''\<rparr>)\<rparr>"
          "ex_gpd\<lparr>onion_mode := ''SELECTED''\<rparr>"]
  by (auto simp: ex_ctx_def ex_gpd_def)

text \<open>
  C9. \<open>GPENCIL_UL_matslots.draw_item\<close> with layout type \<open>'DEFAULT'\<close> or \<open>'COMPACT'\<close>: when
  the slot has no material, or its material has no Grease Pencil settings, only the icon
  label is drawn and no property widget; otherwise the label is followed by the name
  field, in a row whose \<open>enabled\<close> is the negation of the \<open>lock\<close> flag, and by the ghost,
  hide and lock toggles.
\<close>

theorem matslots_draw_item_cases:
  assumes "layout_type = ''DEFAULT'' \<or> layout_type = ''COMPACT''"
  shows "(slot_material slot = None \<or>
          (\<exists>ma. slot_material slot = Some ma \<and> ma_grease_pencil ma = None) \<longrightarrow>
            GPENCIL_UL_matslots_draw_item layout_type slot icon =
              [SubLayout self_layout ''row'' [(''align'', ABool True)] 1,
               Label 1 [(''text'', AStr ''''), (''icon_value'', AInt icon)]] \<and>
            props_of (GPENCIL_UL_matslots_draw_item layout_type slot icon) = [])
       \<and> (\<forall>ma gpcolor. slot_material slot = Some ma \<and> ma_grease_pencil ma = Some gpcolor \<longrightarrow>
            GPENCIL_UL_matslots_draw_item layout_type slot icon =
              [SubLayout self_layout ''row'' [(''align'', ABool True)] 1,
               Label 1 [(''text'', AStr ''''), (''icon_value'', AInt icon)],
               SubLayout self_layout ''row'' [(''align'', ABool True)] 2,
               SetAttr (OnLayout 2) ''enabled'' (ABool (\<not> lock gpcolor)),
               Prop 2 (OMaterial ma) ''name''
                 [(''text'', AStr ''''), (''emboss'', ABool False), (''icon'', AStr ''NONE'')],
               SubLayout self_layout ''row'' [(''align'', ABool True)] 3,
               Prop 3 (OGPColor gpcolor) ''ghost''
                 [(''text'', AStr ''''),
                  (''icon'', AStr (if ghost gpcolor then ''ONIONSKIN_OFF'' else ''ONIONSKIN_ON'')),
                  (''emboss'', ABool False)],
               Prop 3 (OGPColor gpcolor) ''hide'' [(''text'', AStr ''''), (''emboss'', ABool False)],
               Prop 3 (OGPColor gpcolor) ''lock'' [(''text'', AStr ''''), (''emboss'', ABool False)]])"
  using assms
  by (auto simp: GPENCIL_UL_matslots_draw_item_def layout_defs numeral_2_eq_2 numeral_3_eq_3)

theorem matslots_draw_item_cases_witness:
  "props_of (GPENCIL_UL_matslots_draw_item ''DEFAULT'' \<lparr>slot_material = None\<rparr> 7) = [] \<and>
   map (fst \<circ> snd)
     (props_of (GPENCIL_UL_matslots_draw_item ''COMPACT'' \<lparr>slot_material = Some ex_material\<rparr> 7))
     = [''name'', ''ghost'', ''hide'', ''lock'']"
  using matslots_draw_item_cases [of "''DEFAULT''" "\<lparr>slot_material = None\<rparr>" 7]
    matslots_draw_item_cases [of "''COMPACT''" "\<lparr>slot_material = Some ex_material\<rparr>" 7]
  by (simp add: ex_material_def)

lemma props_of_append: "props_of (xs @ ys) = props_of xs @ props_of ys"
  by (induction xs rule: props_of.induct) simp_all

lemma shown_append: "shown name (xs @ ys) = shown name xs @ shown name ys"
  by (simp add: shown_def props_of_append)

lemma shown_simps:
  "shown name [] = []"
  "shown name (Prop l data property kw # cs) =
     (if property = name then data # shown name cs else shown name cs)"
  "shown name (SetAttr t a v # cs) = shown name cs"
  "shown name (SubLayout l k kw h # cs) = shown name cs"
  "shown name (Separator l kw # cs) = shown name cs"
  by (simp_all add: shown_def)

lemma morph_target_rows_shown:
  "shown ''value'' (calls (snd (run_state (morph_target_rows col mts) s)))
     = shown ''value'' (calls s) @ map OMorphTarget mts"
  by (induction mts arbitrary: s)
     (simp_all add: layout_defs shown_append shown_simps)

lemma shape_key_rows_shown:
  "shown ''value'' (calls (snd (run_state (shape_key_rows col sks) s)))
     = shown ''value'' (calls s) @ map OShapeKey sks"
  by (induction sks arbitrary: s)
     (simp_all add: layout_defs shown_append shown_simps)

text \<open>
  C8. The Morph Targets N-panel shows one \<open>value\<close> slider per morph target, in ascending
  order of \<open>order_nr\<close>, whatever the order of the \<open>morph_targets\<close> collection (the sliders
  shown are a permutation of the collection); the Shape Keys N-panel shows one slider
  per shape key in collection order.
\<close>

theorem n_panels_display_order:
  "(\<forall>ob gpd. ctx_object ctx = Some ob \<and> ob_data ob = DataGpencil gpd \<longrightarrow>
      (\<exists>log displayed.
         GPENCIL_PT_MorphTargetsNPanel_draw ctx = Inr log \<and>
         shown ''value'' log = map OMorphTarget displayed \<and>
         sorted (map order_nr displayed) \<and>
         mset displayed = mset (morph_targets_items (morph_targets gpd)))) \<and>
   (\<forall>grease_pencil. ctx_grease_pencil ctx = Some grease_pencil \<longrightarrow>
      (\<exists>log.
         GREASE_PENCIL_PT_ShapeKeysNPanel_draw ctx = Inr log \<and>
         shown ''value'' log = map OShapeKey (shape_keys grease_pencil)))"
proof (intro conjI allI impI)
  fix ob gpd
  assume h: "ctx_object ctx = Some ob \<and> ob_data ob = DataGpencil gpd"
  let ?sorted = "sort_key order_nr (morph_targets_items (morph_targets gpd))"
  have "GPENCIL_PT_MorphTargetsNPanel_draw ctx = Inr (run_layout (do {
          set_attr self_layout ''use_property_decorate'' (ABool True);
          set_attr self_layout ''use_property_split'' (ABool True);
          col \<leftarrow> column self_layout [(''align'', ABool True)];
          morph_target_rows col ?sorted;
          separator self_layout [(''factor'', ADec 2 1)]
        }))" (is "_ = Inr ?log")
    using h by (simp add: GPENCIL_PT_MorphTargetsNPanel_draw_def)
  moreover have "shown ''value'' ?log = map OMorphTarget ?sorted"
    by (simp add: layout_defs case_prod_beta shown_append shown_simps
          morph_target_rows_shown [unfolded layout_defs])
  moreover have "sorted (map order_nr ?sorted)" by simp
  moreover have "mset ?sorted = mset (morph_targets_items (morph_targets gpd))" by simp
  ultimately show "\<exists>log displayed.
         GPENCIL_PT_MorphTargetsNPanel_draw ctx = Inr log \<and>
         shown ''value'' log = map OMorphTarget displayed \<and>
         sorted (map order_nr displayed) \<and>
         mset displayed = mset (morph_targets_items (morph_targets gpd))"
    by blast
next
  fix grease_pencil
  assume h: "ctx_grease_pencil ctx = Some grease_pencil"
  show "\<exists>log. GREASE_PENCIL_PT_ShapeKeysNPanel_draw ctx = Inr log \<and>
         shown ''value'' log = map OShapeKey (shape_keys grease_pencil)"
    using h
    by (simp add: GREASE_PENCIL_PT_ShapeKeysNPanel_draw_def layout_defs case_prod_beta
          shown_append shown_simps shape_key_rows_shown [unfolded layout_defs])
qed

theorem n_panels_display_order_witness:
  "(\<exists>log. GPENCIL_PT_MorphTargetsNPanel_draw
       (ex_ctx\<lparr>ctx_object := Some (ex_object ''GPENCIL'' (DataGpencil ex_gpd_morphs))\<rparr>)
         = Inr log \<and>
       shown ''value'' log = [OMorphTarget ex_mt_blink, OMorphTarget ex_mt_smile]) \<and>
   (\<exists>log. GREASE_PENCIL_PT_ShapeKeysNPanel_draw
       (ex_ctx\<lparr>ctx_grease_pencil := Some ex_grease_pencil\<rparr>) = Inr log \<and>
       shown ''value'' log = [OShapeKey \<lparr>sk_name = ''wide''\<rparr>, OShapeKey \<lparr>sk_name = ''narrow''\<rparr>])"
proof -
  let ?c = "ex_ctx\<lparr>ctx_object := Some (ex_object ''GPENCIL'' (DataGpencil ex_gpd_morphs))\<rparr>"
  let ?d = "ex_ctx\<lparr>ctx_grease_pencil := Some ex_grease_pencil\<rparr>"
  from n_panels_display_order [of ?c]
  obtain log displayed where a:
      "GPENCIL_PT_MorphTargetsNPanel_draw ?c = Inr log"
      "shown ''value'' log = map OMorphTarget displayed"
      "sorted (map order_nr displayed)"
      "mset displayed = mset [ex_mt_smile, ex_mt_blink]"
    by (auto simp: ex_ctx_def ex_object_def ex_gpd_morphs_def ex_gpd_def)
  have "GPENCIL_PT_MorphTargetsNPanel_draw ?c = Inr log \<and>
        shown ''value'' log = [OMorphTarget ex_mt_blink, OMorphTarget ex_mt_smile]"
    using a(1)
    by (auto simp: GPENCIL_PT_MorphTargetsNPanel_draw_def ex_ctx_def ex_object_def
          ex_gpd_morphs_def ex_gpd_def ex_mt_smile_def ex_mt_blink_def sort_key_def
          layout_defs shown_simps)
  moreover from n_panels_display_order [of ?d]
  have "\<exists>log. GREASE_PENCIL_PT_ShapeKeysNPanel_draw ?d = Inr log \<and>
          shown ''value'' log = map OShapeKey (shape_keys ex_grease_pencil)"
    by (simp add: ex_ctx_def)
  ultimately show ?thesis by (auto simp: ex_grease_pencil_def)
qed

subsection \<open>Draw methods only build widgets\<close>

lemma ui_only_return: "ui_only (State_Monad.return x)"
  by (simp add: ui_only_def)

lemma ui_only_skip: "ui_only skip"
  by (simp add: skip_def ui_only_return)

lemma ui_only_bind:
  assumes "ui_only m" and "\<And>x. ui_only (f x)"
  shows "ui_only (State_Monad.bind m f)"
  unfolding ui_only_def
proof (intro allI impI)
  fix s :: ui
  assume s: "no_data_writes (calls s)"
  obtain a s' where r: "run_state m s = (a, s')" by (cases "run_state m s")
  from assms(1) s r have "no_data_writes (calls s')"
    by (auto simp: ui_only_def dest: spec [of _ s])
  with assms(2) [of a] have "no_data_writes (calls (snd (run_state (f a) s')))"
    by (simp add: ui_only_def)
  with r show "no_data_writes (calls (snd (run_state (State_Monad.bind m f) s)))"
    by simp
qed

lemma ui_only_emit: "\<not> writes_data c \<Longrightarrow> ui_only (emit c)"
  by (simp add: ui_only_def emit_def no_data_writes_def)

lemma ui_only_sub_layout: "ui_only (sub_layout kind l kw)"
  by (simp add: ui_only_def sub_layout_def no_data_writes_def)

lemma ui_only_if: "ui_only m \<Longrightarrow> ui_only n \<Longrightarrow> ui_only (if b then m else n)"
  by simp

lemma ui_only_case_option:
  "ui_only m \<Longrightarrow> (\<And>y. ui_only (f y)) \<Longrightarrow> ui_only (case x of None \<Rightarrow> m | Some y \<Rightarrow> f y)"
  by (cases x) simp_all

lemmas ui_only_prims =
  ui_only_sub_layout [of "''row''", folded row_def]
  ui_only_sub_layout [of "''column''", folded column_def]
  ui_only_sub_layout [of "''split''", folded split_layout_def]
  ui_only_sub_layout [of "''grid_flow''", folded grid_flow_def]

lemma ui_only_calls:
  "ui_only (set_attr l a v)"
  "ui_only (ui_prop l data property kw)"
  "ui_only (prop_decorator l data property)"
  "ui_only (operator l idname kw props)"
  "ui_only (operator_menu_enum l idname property kw)"
  "ui_only (label l kw)"
  "ui_only (separator l kw)"
  "ui_only (menu l idname kw)"
  "ui_only (popover l kw)"
  "ui_only (template_ID l data property kw)"
  "ui_only (template_list l args kw)"
  "ui_only (template_palette l data property kw)"
  "ui_only (template_preview l ident)"
  by (simp_all add: set_attr_def ui_prop_def prop_decorator_def operator_def
        operator_menu_enum_def label_def separator_def menu_def popover_def template_ID_def
        template_list_def template_palette_def template_preview_def ui_only_emit)

lemmas ui_only_intros =
  ui_only_bind ui_only_if ui_only_case_option ui_only_skip ui_only_return
  ui_only_prims ui_only_calls

lemma run_layout_ui_only:
  assumes "ui_only m"
  shows "no_data_writes (run_layout m)"
  using assms [unfolded ui_only_def, rule_format, of "\<lparr>next_handle = 1, calls = []\<rparr>"]
  by (simp add: run_layout_def no_data_writes_def)

lemma ui_only_morph_target_rows: "ui_only (morph_target_rows col mts)"
  by (induction mts) (auto intro!: ui_only_intros)

lemma ui_only_shape_key_rows: "ui_only (shape_key_rows col sks)"
  by (induction sks) (auto intro!: ui_only_intros)

lemma ui_only_helpers:
  "ui_only (draw_layers_buttons gpd col sub)"
  "ui_only (draw_layers_plain gpl)"
  "ui_only (draw_layers_watercolor gpl)"
  "ui_only (draw_morph_target_settings gpd gpmt)"
  "ui_only (set_shaded_color_palette_width l paint)"
  "ui_only (color_row col gpcolor heading pnl property)"
  by (auto simp: draw_layers_buttons_def draw_layers_plain_def draw_layers_watercolor_def
        draw_morph_target_settings_def set_shaded_color_palette_width_def color_row_def
        intro!: ui_only_intros)

lemma ui_only_draw_layers: "ui_only (draw_layers gpd)"
  by (auto simp: draw_layers_def intro!: ui_only_intros ui_only_helpers)

lemmas ui_only_all =
  ui_only_intros ui_only_helpers ui_only_draw_layers ui_only_morph_target_rows
  ui_only_shape_key_rows

lemma draw_of_no_data_writes:
  "draw_of p = Some f \<Longrightarrow> f ctx = Inr cs \<Longrightarrow> no_data_writes cs"
  by (cases p)
     (auto simp: DATA_PT_context_gpencil_draw_def DATA_PT_gpencil_layers_draw_def
        DATA_PT_gpencil_layer_default_render_draw_def DATA_PT_gpencil_onion_skinning_draw_def
        DATA_PT_gpencil_onion_skinning_custom_colors_draw_def
        DATA_PT_gpencil_onion_skinning_display_draw_def DATA_PT_gpencil_vertex_groups_draw_def
        DATA_PT_gpencil_morph_targets_draw_def DATA_PT_gpencil_strokes_draw_def
        DATA_PT_gpencil_display_draw_def DATA_PT_gpencil_canvas_draw_def
        MATERIAL_PT_gpencil_surface_draw_def MATERIAL_PT_gpencil_strokecolor_palette_draw_def
        MATERIAL_PT_gpencil_fillcolor_palette_draw_def
        MATERIAL_PT_gpencil_mixcolor_palette_draw_def palette_panel_draw_def
        MATERIAL_PT_gpencil_strokecolor_draw_def MATERIAL_PT_gpencil_strokecolor_default_draw_def
        MATERIAL_PT_gpencil_fillcolor_draw_def MATERIAL_PT_gpencil_fillcolor_ondine_draw_def
        MATERIAL_PT_gpencil_fillcolor_default_draw_def MATERIAL_PT_gpencil_preview_draw_def
        MATERIAL_PT_gpencil_settings_draw_def GPENCIL_PT_MorphTargetsNPanel_draw_def
        GREASE_PENCIL_PT_ShapeKeysNPanel_draw_def
        split: option.splits obdata.splits
        intro!: run_layout_ui_only ui_only_all)

lemma draw_header_of_no_data_writes:
  "draw_header_of p = Some f \<Longrightarrow> f ctx = Inr cs \<Longrightarrow> no_data_writes cs"
  by (cases p)
     (auto simp: DATA_PT_gpencil_onion_skinning_custom_colors_draw_header_def
        MATERIAL_PT_gpencil_strokecolor_draw_header_def
        MATERIAL_PT_gpencil_fillcolor_draw_header_def
        split: option.splits
        intro!: run_layout_ui_only ui_only_all)

lemma menu_draw_no_data_writes:
  "menu_draw m ctx = Inr cs \<Longrightarrow> no_data_writes cs"
  by (cases m)
     (auto simp: GPENCIL_MT_layer_context_menu_draw_def GPENCIL_MT_gpencil_vertex_group_draw_def
        DATA_MT_morph_targets_context_menu_draw_def GPENCIL_MT_material_context_menu_draw_def
        split: option.splits obdata.splits
        intro!: run_layout_ui_only ui_only_all)

lemma draw_item_no_data_writes:
  "no_data_writes (GPENCIL_UL_matslots_draw_item layout_type slot icon)"
  "no_data_writes (GPENCIL_UL_vgroups_draw_item layout_type vgroup icon)"
  by (auto simp: GPENCIL_UL_matslots_draw_item_def GPENCIL_UL_vgroups_draw_item_def
        intro!: run_layout_ui_only ui_only_all)

text \<open>
  C5. No \<open>draw\<close>, \<open>draw_header\<close> or \<open>draw_item\<close> method of the four files assigns to an
  attribute of a host data object: every attribute assignment it makes targets a layout
  (or the properties of an operator button it has just created), so the Grease Pencil
  data-block, its layers, morph targets, shape keys, materials, palettes and vertex
  groups are left as they were.
\<close>

theorem draw_methods_leave_data_unchanged:
  "(\<forall>p f cs. draw_of p = Some f \<and> f ctx = Inr cs \<longrightarrow> (\<forall>c \<in> set cs. \<not> writes_data c)) \<and>
   (\<forall>p f cs. draw_header_of p = Some f \<and> f ctx = Inr cs \<longrightarrow>
      (\<forall>c \<in> set cs. \<not> writes_data c)) \<and>
   (\<forall>m cs. menu_draw m ctx = Inr cs \<longrightarrow> (\<forall>c \<in> set cs. \<not> writes_data c)) \<and>
   (\<forall>c \<in> set (GPENCIL_UL_matslots_draw_item layout_type slot icon). \<not> writes_data c) \<and>
   (\<forall>c \<in> set (GPENCIL_UL_vgroups_draw_item layout_type vgroup icon). \<not> writes_data c)"
  using draw_of_no_data_writes [of _ _ ctx] draw_header_of_no_data_writes [of _ _ ctx]
    menu_draw_no_data_writes [of _ ctx] draw_item_no_data_writes(1) [of layout_type slot icon]
    draw_item_no_data_writes(2) [of layout_type vgroup icon]
  unfolding no_data_writes_def by blast

theorem draw_methods_leave_data_unchanged_witness:
  "DATA_PT_gpencil_layers_draw (ex_ctx\<lparr>ctx_gpencil := Some ex_gpd\<rparr>) =
     Inr [SetAttr (OnLayout self_layout) ''use_property_decorate'' (ABool False),
          Operator self_layout ''gpencil.layer_add'' [(''text'', AStr ''New Layer'')] []] \<and>
   \<not> writes_data (SetAttr (OnLayout self_layout) ''use_property_decorate'' (ABool False)) \<and>
   \<not> writes_data (Operator self_layout ''gpencil.layer_add'' [(''text'', AStr ''New Layer'')] []) \<and>
   writes_data (SetAttr (OnData (OGpencil ex_gpd)) ''onion_mode'' (AStr ''RELATIVE''))"
proof -
  let ?c = "ex_ctx\<lparr>ctx_gpencil := Some ex_gpd\<rparr>"
  have d: "DATA_PT_gpencil_layers_draw ?c =
     Inr [SetAttr (OnLayout self_layout) ''use_property_decorate'' (ABool False),
          Operator self_layout ''gpencil.layer_add'' [(''text'', AStr ''New Layer'')] []]"
    by (simp add: DATA_PT_gpencil_layers_draw_def ex_ctx_def ex_gpd_def layout_defs)
  from draw_methods_leave_data_unchanged [of ?c]
  have "\<forall>cs. DATA_PT_gpencil_layers_draw ?c = Inr cs \<longrightarrow> (\<forall>c \<in> set cs. \<not> writes_data c)"
    by (metis draw_of.simps(2))
  with d show ?thesis by simp
qed

subsection \<open>Errors under poll\<close>

text \<open>
  Every panel other than the Shape Keys N-panel that has a \<open>poll\<close> and a \<open>draw\<close> body in
  the four files: once \<open>poll\<close> has returned a truthy value, \<open>draw\<close> reads only what
  \<open>poll\<close> has tested, and raises nothing. The same holds of the three \<open>draw_header\<close>s.
\<close>

lemma draw_safe_with_poll:
  assumes "poll_of p \<noteq> None" and "poll_passes p ctx" and "draw_of p = Some f"
    and "p \<noteq> GREASE_PENCIL_PT_ShapeKeysNPanel"
  shows "\<not> raises (f ctx)"
  using assms
  by (cases p)
     (auto simp: raises_def poll_passes_def DataButtonsPanel_poll_def
        ObjectButtonsPanel_poll_def LayerDataButtonsPanel_poll_def GPMaterialButtonsPanel_poll_def
        MATERIAL_PT_gpencil_fillcolor_ondine_poll_def GPENCIL_PT_MorphTargetsNPanel_poll_def
        DATA_PT_context_gpencil_draw_def DATA_PT_gpencil_layers_draw_def
        DATA_PT_gpencil_layer_default_render_draw_def DATA_PT_gpencil_onion_skinning_draw_def
        DATA_PT_gpencil_onion_skinning_custom_colors_draw_def
        DATA_PT_gpencil_onion_skinning_display_draw_def DATA_PT_gpencil_vertex_groups_draw_def
        DATA_PT_gpencil_morph_targets_draw_def DATA_PT_gpencil_strokes_draw_def
        DATA_PT_gpencil_display_draw_def DATA_PT_gpencil_canvas_draw_def
        MATERIAL_PT_gpencil_surface_draw_def
        MATERIAL_PT_gpencil_strokecolor_draw_def MATERIAL_PT_gpencil_strokecolor_default_draw_def
        MATERIAL_PT_gpencil_fillcolor_draw_def MATERIAL_PT_gpencil_fillcolor_ondine_draw_def
        MATERIAL_PT_gpencil_fillcolor_default_draw_def MATERIAL_PT_gpencil_preview_draw_def
        MATERIAL_PT_gpencil_settings_draw_def GPENCIL_PT_MorphTargetsNPanel_draw_def
        split: option.splits obdata.splits if_splits)

lemma draw_header_safe_with_poll:
  assumes "poll_of p \<noteq> None" and "poll_passes p ctx" and "draw_header_of p = Some f"
  shows "\<not> raises (f ctx)"
  using assms
  by (cases p)
     (auto simp: raises_def poll_passes_def DataButtonsPanel_poll_def
        GPMaterialButtonsPanel_poll_def
        DATA_PT_gpencil_onion_skinning_custom_colors_draw_header_def
        MATERIAL_PT_gpencil_strokecolor_draw_header_def
        MATERIAL_PT_gpencil_fillcolor_draw_header_def
        split: option.splits)


end
